theory Spec2Isabelle
  imports Complex_Main "HOL-Library.Sublist"
begin

section \<open>Values shared by the modules\<close>

text \<open>
  Python floats are modelled by \<^typ>\<open>real\<close> (no rounding, no infinities), row ids and
  other non-negative counters by \<^typ>\<open>nat\<close>, Python's \<open>None\<close> by \<open>None\<close> of an
  option type. Every exception the modelled code can raise is a constructor of
  \<open>exn\<close>; a function that may raise returns \<open>exn + 'a\<close>.
\<close>

datatype exn =
    OperationalError
  | SqliteIntegrityError
  | IllegalTransitionError
  | IntegrityError string
  | KeyError string
  | TypeError
  | ValueError
  | OverflowError
  | BrokerError string

text \<open>
  A JSON text column written with \<open>json.dumps\<close> is modelled by the value it
  serialises; a column read with \<open>json.loads\<close> by what \<open>json.loads\<close> returns for its
  text (\<open>None\<close> when it raises).
\<close>

datatype json =
    JNull
  | JBool bool
  | JInt int
  | JFloat real
  | JStr string
  | JArr "json list"
  | JObj "(string \<times> json) list"

section \<open>storage/db.py: the schema\<close>

text \<open>
  One record per table of \<open>DB.init\<close>. Columns that only ever hold the schema's
  default or the engine's clock (\<open>ingested_at\<close>, \<open>created_at\<close>, \<open>opened_at\<close>,
  \<open>closed_at\<close>, \<open>sent_at\<close>, \<open>filled_at\<close>, \<open>event_time\<close>, \<open>updated_at\<close>,
  \<open>context_snippet\<close>, \<open>broker_order_id\<close>, \<open>attempt_no\<close>, and the registry's
  \<open>scope\<close>, \<open>tune_required\<close>, \<open>target_phase\<close>, \<open>rationale\<close>, \<open>evidence_link\<close>)
  are left out. A nullable column has an option type.
\<close>

record news_row =
  ne_id :: nat
  ne_source :: string
  ne_tier :: int
  ne_published_at :: string
  ne_title :: string
  ne_body :: "string option"
  ne_url :: "string option"
  ne_raw_hash :: string

record event_ticker_row =
  et_id :: nat
  et_news_id :: nat
  et_ticker :: string
  et_company_name :: string
  et_map_confidence :: real
  et_mapping_method :: string

record signal_row =
  sg_id :: nat
  sg_news_id :: nat
  sg_event_ticker_id :: nat
  sg_ticker :: string
  sg_raw_score :: real
  sg_total_score :: real
  sg_components :: json
  sg_priced_in_flag :: string
  sg_decision :: string

record position_row =
  ps_position_id :: nat
  ps_ticker :: string
  ps_signal_id :: nat
  ps_status :: string
  ps_qty :: real
  ps_avg_entry_price :: "real option"
  ps_opened_value :: "real option"
  ps_leverage :: real
  ps_exit_reason_code :: "string option"

record order_row =
  od_id :: nat
  od_position_id :: nat
  od_signal_id :: nat
  od_ticker :: string
  od_side :: string
  od_qty :: real
  od_order_type :: string
  od_price :: "real option"
  od_status :: string

record position_event_row =
  pe_id :: nat
  pe_position_id :: nat
  pe_event_type :: string
  pe_action :: string
  pe_reason_code :: string
  pe_detail_json :: json
  pe_idempotency_key :: "string option"

record risk_row =
  rs_trade_date :: string
  rs_daily_realized_pnl :: real
  rs_daily_unrealized_pnl :: real
  rs_daily_loss_limit_hit :: int
  rs_consecutive_losses :: int
  rs_cooldown_until :: "string option"
  rs_trading_enabled :: int

record parameter_row =
  pr_id :: nat
  pr_name :: string
  pr_value_json :: "json option"

text \<open>
  A table with \<open>integer primary key autoincrement\<close>: its rows in insertion order and
  its counter in \<open>sqlite_sequence\<close>. The next row id is one more than the larger of
  the counter and the largest id in the table.
\<close>

record 'r table =
  rows :: "'r list"
  seq :: nat

definition next_rowid :: "('r \<Rightarrow> nat) \<Rightarrow> 'r table \<Rightarrow> nat" where
  "next_rowid key t = Suc (max (seq t) (fold max (map key (rows t)) 0))"

definition append_row :: "'r \<Rightarrow> nat \<Rightarrow> 'r table \<Rightarrow> 'r table" where
  "append_row r n t = \<lparr>rows = rows t @ [r], seq = n\<rparr>"

definition update_rows :: "('r \<Rightarrow> bool) \<Rightarrow> ('r \<Rightarrow> 'r) \<Rightarrow> 'r table \<Rightarrow> 'r table" where
  "update_rows hit f t = t\<lparr>rows := map (\<lambda>r. if hit r then f r else r) (rows t)\<rparr>"

definition rowcount :: "('r \<Rightarrow> bool) \<Rightarrow> 'r table \<Rightarrow> nat" where
  "rowcount hit t = length (filter hit (rows t))"

record store =
  news_events :: "news_row table"
  event_tickers :: "event_ticker_row table"
  signal_scores :: "signal_row table"
  positions :: "position_row table"
  orders :: "order_row table"
  position_events :: "position_event_row table"
  risk_state :: "risk_row list"
  parameter_registry :: "parameter_row table"

definition empty_table :: "'r table" where
  "empty_table = \<lparr>rows = [], seq = 0\<rparr>"

definition empty_store :: store where
  "empty_store = \<lparr>news_events = empty_table, event_tickers = empty_table,
     signal_scores = empty_table, positions = empty_table, orders = empty_table,
     position_events = empty_table, risk_state = [], parameter_registry = empty_table\<rparr>"

section \<open>storage/db.py: the connection and its transactions\<close>

text \<open>
  The class \<open>DB\<close> wraps one \<open>sqlite3\<close> connection. \<open>committed\<close> is what the
  database file holds; \<open>pending\<close> is the open transaction's view of it, \<open>None\<close> when
  no transaction is open. Reads go through \<open>view\<close>. Python's \<open>sqlite3\<close> opens a
  transaction by itself before an \<open>insert\<close> or \<open>update\<close> when none is open
  (\<open>dml\<close>), and \<open>BEGIN\<close> inside an open transaction raises \<open>OperationalError\<close>.
\<close>

record DB =
  committed :: store
  pending :: "store option"

definition view :: "DB \<Rightarrow> store" where
  "view c = (case pending c of None \<Rightarrow> committed c | Some s \<Rightarrow> s)"

definition db_begin :: "DB \<Rightarrow> exn + DB" where
  "db_begin c = (case pending c of
       None \<Rightarrow> Inr (c\<lparr>pending := Some (committed c)\<rparr>)
     | Some s \<Rightarrow> Inl OperationalError)"

definition db_commit :: "DB \<Rightarrow> DB" where
  "db_commit c = \<lparr>committed = view c, pending = None\<rparr>"

definition db_rollback :: "DB \<Rightarrow> DB" where
  "db_rollback c = c\<lparr>pending := None\<rparr>"

definition dml :: "(store \<Rightarrow> store) \<Rightarrow> DB \<Rightarrow> DB" where
  "dml f c = c\<lparr>pending := Some (f (view c))\<rparr>"

definition finish :: "bool \<Rightarrow> DB \<Rightarrow> DB" where
  "finish autocommit c = (if autocommit then db_commit c else c)"

definition DEFAULT_SCORE_WEIGHTS_JSON :: json where
  "DEFAULT_SCORE_WEIGHTS_JSON = JObj [(''impact'', JFloat 0.30),
     (''source_reliability'', JFloat 0.20), (''novelty'', JFloat 0.20),
     (''market_reaction'', JFloat 0.15), (''liquidity'', JFloat 0.15)]"

text \<open>
  \<open>init\<close>. The tables are created if they do not exist, which changes nothing that is
  recorded here, and the default \<open>score_weights\<close> row is inserted with
  \<open>insert or ignore\<close>. When the name is taken the insert is ignored, but the engine
  has drawn a row id for it by then: the counter of the table advances all the same.
\<close>

definition init :: "DB \<Rightarrow> DB" where
  "init c = db_commit (dml (\<lambda>s.
     if ''score_weights'' \<in> set (map pr_name (rows (parameter_registry s)))
     then s\<lparr>parameter_registry :=
       (parameter_registry s)\<lparr>seq := next_rowid pr_id (parameter_registry s)\<rparr>\<rparr>
     else (let n = next_rowid pr_id (parameter_registry s) in
       s\<lparr>parameter_registry := append_row
         \<lparr>pr_id = n, pr_name = ''score_weights'',
          pr_value_json = Some DEFAULT_SCORE_WEIGHTS_JSON\<rparr> n (parameter_registry s)\<rparr>)) c)"

definition fresh_db :: DB where
  "fresh_db = \<lparr>committed = empty_store, pending = None\<rparr>"

section \<open>storage/db.py: positions\<close>

definition create_position :: "string \<Rightarrow> nat \<Rightarrow> real \<Rightarrow> bool \<Rightarrow> DB \<Rightarrow> nat \<times> DB" where
  "create_position ticker signal_id qty autocommit c =
     (let n = next_rowid ps_position_id (positions (view c));
          c1 = dml (\<lambda>s. s\<lparr>positions := append_row
                 \<lparr>ps_position_id = n, ps_ticker = ticker, ps_signal_id = signal_id,
                  ps_status = ''PENDING_ENTRY'', ps_qty = qty, ps_avg_entry_price = None,
                  ps_opened_value = None, ps_leverage = 1, ps_exit_reason_code = None\<rparr>
                 n (positions s)\<rparr>) c
      in (n, finish autocommit c1))"

definition set_position_open :: "nat \<Rightarrow> real \<Rightarrow> real \<Rightarrow> bool \<Rightarrow> DB \<Rightarrow> (exn + unit) \<times> DB" where
  "set_position_open position_id avg_entry_price opened_value autocommit c =
     (let hit = (\<lambda>p. ps_position_id p = position_id \<and> ps_status p = ''PENDING_ENTRY'');
          n = rowcount hit (positions (view c));
          c1 = dml (\<lambda>s. s\<lparr>positions := update_rows hit
                 (\<lambda>p. p\<lparr>ps_status := ''OPEN'', ps_avg_entry_price := Some avg_entry_price,
                        ps_opened_value := Some opened_value\<rparr>) (positions s)\<rparr>) c
      in if n = 0 then (Inl IllegalTransitionError, c1)
         else (Inr (), finish autocommit c1))"

definition set_position_closed :: "nat \<Rightarrow> string \<Rightarrow> bool \<Rightarrow> DB \<Rightarrow> (exn + unit) \<times> DB" where
  "set_position_closed position_id reason_code autocommit c =
     (let hit = (\<lambda>p. ps_position_id p = position_id \<and> ps_status p = ''OPEN'');
          n = rowcount hit (positions (view c));
          c1 = dml (\<lambda>s. s\<lparr>positions := update_rows hit
                 (\<lambda>p. p\<lparr>ps_status := ''CLOSED'', ps_exit_reason_code := Some reason_code\<rparr>)
                 (positions s)\<rparr>) c
      in if n = 0 then (Inl IllegalTransitionError, c1)
         else (Inr (), finish autocommit c1))"

section \<open>storage/db.py: risk state and parameters\<close>

definition ensure_risk_state_today :: "string \<Rightarrow> bool \<Rightarrow> DB \<Rightarrow> DB" where
  "ensure_risk_state_today trade_date autocommit c =
     finish autocommit (dml (\<lambda>s.
       if trade_date \<in> set (map rs_trade_date (risk_state s)) then s
       else s\<lparr>risk_state := risk_state s @
              [\<lparr>rs_trade_date = trade_date, rs_daily_realized_pnl = 0,
                rs_daily_unrealized_pnl = 0, rs_daily_loss_limit_hit = 0,
                rs_consecutive_losses = 0, rs_cooldown_until = None,
                rs_trading_enabled = 1\<rparr>]\<rparr>) c)"

text \<open>
  \<open>dict(row)\<close> of a \<open>risk_state\<close> row. The risk gate reads the dict through
  \<open>int(...)\<close>; the model keeps the integer columns, as an association list.
\<close>

definition risk_row_dict :: "risk_row \<Rightarrow> (string \<times> int) list" where
  "risk_row_dict r = [(''daily_loss_limit_hit'', rs_daily_loss_limit_hit r),
     (''consecutive_losses'', rs_consecutive_losses r),
     (''trading_enabled'', rs_trading_enabled r)]"

definition get_risk_state :: "string \<Rightarrow> DB \<Rightarrow> (string \<times> int) list option" where
  "get_risk_state trade_date c =
     map_option risk_row_dict
       (find (\<lambda>r. rs_trade_date r = trade_date) (risk_state (view c)))"

text \<open>
  \<open>get_parameter\<close> returns Python's \<open>None\<close> (here \<open>JNull\<close>) when the row is missing
  and when \<open>json.loads\<close> raises, and otherwise whatever \<open>json.loads\<close> returns.
\<close>

definition get_parameter :: "string \<Rightarrow> DB \<Rightarrow> json" where
  "get_parameter name c =
     (case find (\<lambda>r. pr_name r = name) (rows (parameter_registry (view c))) of
        None \<Rightarrow> JNull
      | Some r \<Rightarrow> (case pr_value_json r of None \<Rightarrow> JNull | Some v \<Rightarrow> v))"

text \<open>Python's truth value of a parsed JSON value (\<open>if not raw\<close>).\<close>

fun truthy :: "json \<Rightarrow> bool" where
  "truthy JNull = False"
| "truthy (JBool b) = b"
| "truthy (JInt i) = (i \<noteq> 0)"
| "truthy (JFloat r) = (r \<noteq> 0)"
| "truthy (JStr s) = (s \<noteq> [])"
| "truthy (JArr xs) = (xs \<noteq> [])"
| "truthy (JObj kvs) = (kvs \<noteq> [])"

text \<open>\<open>raw[k]\<close> with a string key: only a dict has it.\<close>

fun subscript :: "json \<Rightarrow> string \<Rightarrow> exn + json" where
  "subscript (JObj kvs) k = (case map_of kvs k of None \<Rightarrow> Inl (KeyError k) | Some v \<Rightarrow> Inr v)"
| "subscript v k = Inl TypeError"

text \<open>
  \<open>float(v)\<close>. What \<open>float\<close> makes of a string is Python's own parser, taken as the
  parameter \<open>float_of_str\<close> (\<open>None\<close> when it raises \<open>ValueError\<close>). An integer is
  converted when it rounds to a double, that is when its magnitude is below
  \<open>2^1024 - 2^970\<close>, halfway between the largest double and \<open>2^1024\<close>; from there on
  \<open>float\<close> raises \<open>OverflowError\<close>.
\<close>

definition float_int_limit :: int where
  "float_int_limit = 2 ^ 1024 - 2 ^ 970"

fun py_float :: "(string \<Rightarrow> real option) \<Rightarrow> json \<Rightarrow> exn + real" where
  "py_float float_of_str (JInt i) =
     (if \<bar>i\<bar> < float_int_limit then Inr (of_int i) else Inl OverflowError)"
| "py_float float_of_str (JFloat r) = Inr r"
| "py_float float_of_str (JBool b) = Inr (if b then 1 else 0)"
| "py_float float_of_str (JStr s) =
     (case float_of_str s of None \<Rightarrow> Inl ValueError | Some r \<Rightarrow> Inr r)"
| "py_float float_of_str v = Inl TypeError"

text \<open>The dict comprehension \<open>{k: float(raw[k]) for k in keys}\<close>, left to right.\<close>

fun float_items :: "(string \<Rightarrow> real option) \<Rightarrow> json \<Rightarrow> string list \<Rightarrow> exn + (string \<times> real) list" where
  "float_items float_of_str raw [] = Inr []"
| "float_items float_of_str raw (k # ks) =
     (case subscript raw k of
        Inl e \<Rightarrow> Inl e
      | Inr v \<Rightarrow> (case py_float float_of_str v of
          Inl e \<Rightarrow> Inl e
        | Inr x \<Rightarrow> (case float_items float_of_str raw ks of
            Inl e \<Rightarrow> Inl e
          | Inr rest \<Rightarrow> Inr ((k, x) # rest))))"

definition score_weight_keys :: "string list" where
  "score_weight_keys =
     [''impact'', ''source_reliability'', ''novelty'', ''market_reaction'', ''liquidity'']"

definition get_score_weights :: "(string \<Rightarrow> real option) \<Rightarrow> DB \<Rightarrow> (string \<times> real) list option" where
  "get_score_weights float_of_str c =
     (let raw = get_parameter ''score_weights'' c in
      if \<not> truthy raw then None
      else (case float_items float_of_str raw score_weight_keys of
              Inl e \<Rightarrow> None
            | Inr w \<Rightarrow> Some w))"

section \<open>storage/db.py: news, bindings and signals\<close>

text \<open>
  The dict passed to \<open>insert_news_if_new\<close>, with its seven keys; a value may be
  \<open>None\<close>. The insert fails with \<open>sqlite3.IntegrityError\<close>, which the function
  catches, when a \<open>not null\<close>, \<open>check\<close> or \<open>unique\<close> constraint of \<open>news_events\<close>
  is violated. A failed statement leaves the transaction it opened open.
\<close>

record news_item =
  item_source :: "string option"
  item_tier :: "int option"
  item_published_at :: "string option"
  item_title :: "string option"
  item_body :: "string option"
  item_url :: "string option"
  item_raw_hash :: "string option"

definition news_not_null :: "news_item \<Rightarrow> bool" where
  "news_not_null item \<longleftrightarrow> item_source item \<noteq> None \<and> item_tier item \<noteq> None \<and>
     item_published_at item \<noteq> None \<and> item_title item \<noteq> None \<and> item_raw_hash item \<noteq> None"

definition news_check :: "news_item \<Rightarrow> bool" where
  "news_check item \<longleftrightarrow> item_tier item \<in> {None, Some 1, Some 2, Some 3}"

definition news_unique :: "news_item \<Rightarrow> store \<Rightarrow> bool" where
  "news_unique item s \<longleftrightarrow>
     (item_url item = None \<or> item_url item \<notin> set (map ne_url (rows (news_events s)))) \<and>
     (item_raw_hash item = None \<or>
        the (item_raw_hash item) \<notin> set (map ne_raw_hash (rows (news_events s))))"

definition insert_news_if_new :: "news_item \<Rightarrow> bool \<Rightarrow> DB \<Rightarrow> nat option \<times> DB" where
  "insert_news_if_new item autocommit c =
     (if news_not_null item \<and> news_check item \<and> news_unique item (view c) then
        (let n = next_rowid ne_id (news_events (view c));
             c1 = dml (\<lambda>s. s\<lparr>news_events := append_row
                    \<lparr>ne_id = n, ne_source = the (item_source item),
                     ne_tier = the (item_tier item),
                     ne_published_at = the (item_published_at item),
                     ne_title = the (item_title item), ne_body = item_body item,
                     ne_url = item_url item, ne_raw_hash = the (item_raw_hash item)\<rparr>
                    n (news_events s)\<rparr>) c
         in (Some n, finish autocommit c1))
      else (None, dml (\<lambda>s. s) c))"

definition insert_event_ticker ::
    "nat \<Rightarrow> string \<Rightarrow> string \<Rightarrow> real \<Rightarrow> string \<Rightarrow> bool \<Rightarrow> DB \<Rightarrow> nat \<times> DB" where
  "insert_event_ticker news_id ticker company_name confidence method autocommit c =
     (let n = next_rowid et_id (event_tickers (view c));
          c1 = dml (\<lambda>s. s\<lparr>event_tickers := append_row
                 \<lparr>et_id = n, et_news_id = news_id, et_ticker = ticker,
                  et_company_name = company_name, et_map_confidence = confidence,
                  et_mapping_method = method\<rparr> n (event_tickers s)\<rparr>) c
      in (n, finish autocommit c1))"

definition get_event_ticker :: "nat \<Rightarrow> DB \<Rightarrow> event_ticker_row option" where
  "get_event_ticker event_ticker_id c =
     find (\<lambda>r. et_id r = event_ticker_id) (rows (event_tickers (view c)))"

record signal_payload =
  pl_news_id :: nat
  pl_event_ticker_id :: nat
  pl_ticker :: string
  pl_raw_score :: real
  pl_total_score :: real
  pl_components :: json
  pl_priced_in_flag :: string
  pl_decision :: string

definition signal_check :: "signal_payload \<Rightarrow> bool" where
  "signal_check p \<longleftrightarrow> 0 \<le> pl_total_score p \<and> pl_total_score p \<le> 100 \<and>
     pl_priced_in_flag p \<in> {''LOW'', ''MEDIUM'', ''HIGH''} \<and>
     pl_decision p \<in> {''BUY'', ''HOLD'', ''IGNORE'', ''BLOCK''}"

definition insert_signal :: "signal_payload \<Rightarrow> bool \<Rightarrow> DB \<Rightarrow> (exn + nat) \<times> DB" where
  "insert_signal p autocommit c =
     (if signal_check p then
        (let n = next_rowid sg_id (signal_scores (view c));
             c1 = dml (\<lambda>s. s\<lparr>signal_scores := append_row
                    \<lparr>sg_id = n, sg_news_id = pl_news_id p,
                     sg_event_ticker_id = pl_event_ticker_id p, sg_ticker = pl_ticker p,
                     sg_raw_score = pl_raw_score p, sg_total_score = pl_total_score p,
                     sg_components = pl_components p,
                     sg_priced_in_flag = pl_priced_in_flag p,
                     sg_decision = pl_decision p\<rparr> n (signal_scores s)\<rparr>) c
         in (Inr n, finish autocommit c1))
      else (Inl SqliteIntegrityError, dml (\<lambda>s. s) c))"

section \<open>storage/db.py: orders and position events\<close>

definition order_check :: "string \<Rightarrow> string \<Rightarrow> string \<Rightarrow> bool" where
  "order_check side order_type status \<longleftrightarrow> side \<in> {''BUY'', ''SELL''} \<and>
     order_type \<in> {''MARKET'', ''LIMIT'', ''STOP'', ''STOP_LIMIT''} \<and>
     status \<in> {''NEW'', ''SENT'', ''PARTIAL_FILLED'', ''FILLED'', ''CANCELLED'',
                ''REJECTED'', ''EXPIRED''}"

definition insert_order ::
    "nat \<Rightarrow> nat \<Rightarrow> string \<Rightarrow> string \<Rightarrow> real \<Rightarrow> string \<Rightarrow> string \<Rightarrow> real option \<Rightarrow> bool \<Rightarrow> DB
       \<Rightarrow> (exn + nat) \<times> DB" where
  "insert_order position_id signal_id ticker side qty order_type status price autocommit c =
     (if order_check side order_type status then
        (let n = next_rowid od_id (orders (view c));
             c1 = dml (\<lambda>s. s\<lparr>orders := append_row
                    \<lparr>od_id = n, od_position_id = position_id, od_signal_id = signal_id,
                     od_ticker = ticker, od_side = side, od_qty = qty,
                     od_order_type = order_type, od_price = price, od_status = status\<rparr>
                    n (orders s)\<rparr>) c
         in (Inr n, finish autocommit c1))
      else (Inl SqliteIntegrityError, dml (\<lambda>s. s) c))"

definition update_order_filled :: "nat \<Rightarrow> real \<Rightarrow> bool \<Rightarrow> DB \<Rightarrow> DB" where
  "update_order_filled order_id price autocommit c =
     finish autocommit (dml (\<lambda>s. s\<lparr>orders := update_rows (\<lambda>r. od_id r = order_id)
        (\<lambda>r. r\<lparr>od_status := ''FILLED'', od_price := Some price\<rparr>) (orders s)\<rparr>) c)"

text \<open>
  \<open>insert_position_event\<close> catches \<open>sqlite3.IntegrityError\<close> as well: a \<open>check\<close>
  violation on \<open>event_type\<close> or \<open>action\<close> and a repeated \<open>idempotency_key\<close> both
  return \<open>None\<close>. A \<open>NULL\<close> key never collides.
\<close>

definition event_check :: "string \<Rightarrow> string \<Rightarrow> bool" where
  "event_check event_type action \<longleftrightarrow>
     event_type \<in> {''ENTRY'', ''ADD'', ''PARTIAL_EXIT'', ''FULL_EXIT'', ''BLOCK''} \<and>
     action \<in> {''EXECUTED'', ''SKIPPED'', ''BLOCKED''}"

definition key_unique :: "string option \<Rightarrow> store \<Rightarrow> bool" where
  "key_unique idempotency_key s \<longleftrightarrow> idempotency_key = None \<or>
     idempotency_key \<notin> set (map pe_idempotency_key (rows (position_events s)))"

definition insert_position_event ::
    "nat \<Rightarrow> string \<Rightarrow> string \<Rightarrow> string \<Rightarrow> json \<Rightarrow> string option \<Rightarrow> bool \<Rightarrow> DB
       \<Rightarrow> nat option \<times> DB" where
  "insert_position_event position_id event_type action reason_code detail_json
       idempotency_key autocommit c =
     (if event_check event_type action \<and> key_unique idempotency_key (view c) then
        (let n = next_rowid pe_id (position_events (view c));
             c1 = dml (\<lambda>s. s\<lparr>position_events := append_row
                    \<lparr>pe_id = n, pe_position_id = position_id, pe_event_type = event_type,
                     pe_action = action, pe_reason_code = reason_code,
                     pe_detail_json = detail_json,
                     pe_idempotency_key = idempotency_key\<rparr> n (position_events s)\<rparr>) c
         in (Some n, finish autocommit c1))
      else (None, dml (\<lambda>s. s) c))"

section \<open>ingestion/news_feed.py\<close>

text \<open>
  \<open>published_at\<close> is kept as its ISO text. \<open>hashlib.sha256(...).hexdigest()\<close> is
  the parameter \<open>sha256_hex\<close>; \<open>datetime.now\<close> is the parameter \<open>now\<close>. Strings are
  their UTF-8 bytes.
\<close>

record NewsItem =
  ni_source :: string
  ni_tier :: int
  ni_title :: string
  ni_body :: string
  ni_url :: string
  ni_published_at :: string

definition build_hash :: "(string \<Rightarrow> string) \<Rightarrow> NewsItem \<Rightarrow> string" where
  "build_hash sha256_hex item =
     sha256_hex (ni_source item @ ''|'' @ ni_url item @ ''|'' @ ni_title item)"

definition sample_title :: string where
  "sample_title =
     [CHR 0xEC, CHR 0x82, CHR 0xBC, CHR 0xEC, CHR 0x84, CHR 0xB1, CHR 0xEC, CHR 0xA0,
     CHR 0x84, CHR 0xEC, CHR 0x9E, CHR 0x90, CHR 0x2C, CHR 0x20, CHR 0xEC, CHR 0x8B, CHR
     0xA0, CHR 0xEA, CHR 0xB7, CHR 0x9C, CHR 0x20, CHR 0xEB, CHR 0xB0, CHR 0x98, CHR
     0xEB, CHR 0x8F, CHR 0x84, CHR 0xEC, CHR 0xB2, CHR 0xB4, CHR 0x20, CHR 0xED, CHR
     0x88, CHR 0xAC, CHR 0xEC, CHR 0x9E, CHR 0x90, CHR 0x20, CHR 0xEB, CHR 0xB0, CHR
     0x9C, CHR 0xED, CHR 0x91, CHR 0x9C]"

definition sample_body :: string where
  "sample_body =
     [CHR 0xEC, CHR 0x83, CHR 0x98, CHR 0xED, CHR 0x94, CHR 0x8C, CHR 0x20, CHR 0xEB,
     CHR 0x89, CHR 0xB4, CHR 0xEC, CHR 0x8A, CHR 0xA4, CHR 0x20, CHR 0xEB, CHR 0xB3, CHR
     0xB8, CHR 0xEB, CHR 0xAC, CHR 0xB8]"

definition sample_news :: "string \<Rightarrow> NewsItem" where
  "sample_news now = \<lparr>ni_source = ''sample'', ni_tier = 2, ni_title = sample_title,
     ni_body = sample_body, ni_url = ''https://example.com/news/1'',
     ni_published_at = now\<rparr>"

section \<open>nlp/ticker_mapper.py\<close>

record MappingResult =
  mr_ticker :: string
  mr_company_name :: string
  mr_confidence :: real
  mr_method :: string

definition alias_samsung_electronics :: string where
  "alias_samsung_electronics =
     [CHR 0xEC, CHR 0x82, CHR 0xBC, CHR 0xEC, CHR 0x84, CHR 0xB1, CHR 0xEC, CHR 0xA0,
     CHR 0x84, CHR 0xEC, CHR 0x9E, CHR 0x90]"

definition alias_sk_hynix :: string where
  "alias_sk_hynix =
     [CHR 0x53, CHR 0x4B, CHR 0xED, CHR 0x95, CHR 0x98, CHR 0xEC, CHR 0x9D, CHR 0xB4,
     CHR 0xEB, CHR 0x8B, CHR 0x89, CHR 0xEC, CHR 0x8A, CHR 0xA4]"

definition alias_samsung :: string where
  "alias_samsung = [CHR 0xEC, CHR 0x82, CHR 0xBC, CHR 0xEC, CHR 0x84, CHR 0xB1]"

text \<open>
  \<open>ALIASES\<close> as \<open>sorted(ALIASES.keys(), key=len, reverse=True)\<close> walks it: the keys
  have 6, 4 and 2 characters.
\<close>

definition ALIASES :: "(string \<times> string \<times> string \<times> real) list" where
  "ALIASES = [(alias_sk_hynix, ''000660'', alias_sk_hynix, 0.98),
     (alias_samsung_electronics, ''005930'', alias_samsung_electronics, 0.98),
     (alias_samsung, [], ''AMBIGUOUS'', 0.20)]"

fun map_ticker_loop :: "(string \<times> string \<times> string \<times> real) list \<Rightarrow> string \<Rightarrow> MappingResult option" where
  "map_ticker_loop [] txt = None"
| "map_ticker_loop ((k, ticker, name, conf) # rest) txt =
     (if sublist k txt then
        (if ticker = [] then None
         else Some \<lparr>mr_ticker = ticker, mr_company_name = name, mr_confidence = conf,
                    mr_method = ''alias_dict''\<rparr>)
      else map_ticker_loop rest txt)"

definition map_ticker :: "string \<Rightarrow> MappingResult option" where
  "map_ticker txt = map_ticker_loop ALIASES txt"

section \<open>signal/integrity.py\<close>

record EventTicker =
  evt_id :: nat
  evt_news_id :: nat
  evt_map_confidence :: real

definition validate_signal_binding :: "nat \<Rightarrow> EventTicker \<Rightarrow> real \<Rightarrow> exn + unit" where
  "validate_signal_binding input_news_id event_ticker min_conf =
     (if evt_news_id event_ticker \<noteq> input_news_id then Inl (IntegrityError ''NEWS_MISMATCH'')
      else if evt_map_confidence event_ticker < min_conf
        then Inl (IntegrityError ''LOW_CONFIDENCE'')
      else Inr ())"

definition default_min_conf :: real where
  "default_min_conf = 0.92"

section \<open>signal/scorer.py\<close>

record ScoreInput =
  impact :: real
  source_reliability :: real
  novelty :: real
  market_reaction :: real
  liquidity :: real
  risk_penalty :: real

definition clamp :: "real \<Rightarrow> real \<Rightarrow> real \<Rightarrow> real" where
  "clamp v lo hi = max lo (min hi v)"

definition DEFAULT_WEIGHTS :: "(string \<times> real) list" where
  "DEFAULT_WEIGHTS = [(''impact'', 0.30), (''source_reliability'', 0.20),
     (''novelty'', 0.20), (''market_reaction'', 0.15), (''liquidity'', 0.15)]"

text \<open>
  A dict of weights is an association list read from the left. \<open>{**a, **b}\<close> lets
  \<open>b\<close> override \<open>a\<close>: the list \<open>b @ a\<close>. \<open>weights or {}\<close> turns \<open>None\<close> into the
  empty dict. \<open>w[k]\<close> raises \<open>KeyError\<close> on a missing key.
\<close>

definition merge_weights :: "(string \<times> real) list option \<Rightarrow> (string \<times> real) list" where
  "merge_weights weights = (case weights of None \<Rightarrow> [] | Some ws \<Rightarrow> ws) @ DEFAULT_WEIGHTS"

definition getitem :: "(string \<times> real) list \<Rightarrow> string \<Rightarrow> exn + real" where
  "getitem w k = (case map_of w k of None \<Rightarrow> Inl (KeyError k) | Some v \<Rightarrow> Inr v)"

definition compute_scores :: "ScoreInput \<Rightarrow> (string \<times> real) list option \<Rightarrow> exn + real \<times> real" where
  "compute_scores inp weights =
     (let w = merge_weights weights in
      case getitem w ''impact'' of Inl e \<Rightarrow> Inl e | Inr w1 \<Rightarrow>
      case getitem w ''source_reliability'' of Inl e \<Rightarrow> Inl e | Inr w2 \<Rightarrow>
      case getitem w ''novelty'' of Inl e \<Rightarrow> Inl e | Inr w3 \<Rightarrow>
      case getitem w ''market_reaction'' of Inl e \<Rightarrow> Inl e | Inr w4 \<Rightarrow>
      case getitem w ''liquidity'' of Inl e \<Rightarrow> Inl e | Inr w5 \<Rightarrow>
      (let raw_score = w1 * impact inp + w2 * source_reliability inp + w3 * novelty inp
                       + w4 * market_reaction inp + w5 * liquidity inp - risk_penalty inp;
           total_score = clamp raw_score 0 100
       in Inr (raw_score, total_score)))"

section \<open>risk/engine.py\<close>

text \<open>
  The module-level \<open>kill_switch\<close> object is passed to \<open>can_trade\<close> as an argument.
\<close>

record RiskDecision =
  allowed :: bool
  reason_code :: "string option"

record KillSwitch =
  enabled :: bool

definition KillSwitch_init :: KillSwitch where
  "KillSwitch_init = \<lparr>enabled = False\<rparr>"

definition KillSwitch_on :: "KillSwitch \<Rightarrow> KillSwitch" where
  "KillSwitch_on ks = ks\<lparr>enabled := True\<rparr>"

definition KillSwitch_off :: "KillSwitch \<Rightarrow> KillSwitch" where
  "KillSwitch_off ks = ks\<lparr>enabled := False\<rparr>"

definition dict_get :: "(string \<times> int) list \<Rightarrow> string \<Rightarrow> int \<Rightarrow> int" where
  "dict_get d k dflt = (case map_of d k of None \<Rightarrow> dflt | Some v \<Rightarrow> v)"

definition can_trade :: "KillSwitch \<Rightarrow> (string \<times> int) list option \<Rightarrow> RiskDecision" where
  "can_trade kill_switch account_state =
     (if enabled kill_switch then \<lparr>allowed = False, reason_code = Some ''KILL_SWITCH_ON''\<rparr>
      else (case account_state of
          None \<Rightarrow> \<lparr>allowed = True, reason_code = None\<rparr>
        | Some st \<Rightarrow>
            (let trading_enabled = dict_get st ''trading_enabled'' 1 in
             if trading_enabled \<noteq> 1
               then \<lparr>allowed = False, reason_code = Some ''RISK_DISABLED''\<rparr>
             else \<lparr>allowed = True, reason_code = None\<rparr>)))"

section \<open>execution/broker_base.py and execution/paper_broker.py\<close>

record OrderRequest =
  rq_signal_id :: nat
  rq_ticker :: string
  rq_side :: string
  rq_qty :: real
  rq_order_type :: string
  rq_expected_price :: "real option"

record OrderResult =
  res_status :: string
  res_filled_qty :: real
  res_avg_price :: real
  res_reason_code :: "string option"

text \<open>
  A broker is its \<open>send_order\<close>: a function that returns a result or raises. The
  paper broker's simulated latency is left out.
\<close>

type_synonym broker = "OrderRequest \<Rightarrow> exn + OrderResult"

definition PaperBroker_send_order :: broker where
  "PaperBroker_send_order req =
     (let mock_price = (case rq_expected_price req of Some p \<Rightarrow> p | None \<Rightarrow> 100)
      in Inr \<lparr>res_status = ''FILLED'', res_filled_qty = rq_qty req,
               res_avg_price = mock_price, res_reason_code = None\<rparr>)"

section \<open>main.py\<close>

text \<open>
  \<open>log_and_notify\<close> appends one line to the log, which the pipeline functions return
  next to their result and the connection. A line is kept as its tag and the values
  formatted into it; \<open>BLOCKED r\<close> is the text \<open>BLOCKED:r\<close>.
\<close>

datatype log_line =
    DUP_NEWS_SKIPPED
  | NO_MAPPING
  | EVENT_TICKER_NOT_FOUND
  | BLOCKED string
  | ORDER_FILLED string real nat nat "nat option"
  | POSITION_CLOSED nat string

record SignalBundle =
  sb_signal_id :: nat
  sb_ticker :: string

text \<open>\<open>str(n)\<close> of a non-negative integer, as an f-string formats it.\<close>

function str_nat :: "nat \<Rightarrow> string" where
  "str_nat n = (if n < 10 then [char_of (48 + n)]
                else str_nat (n div 10) @ [char_of (48 + n mod 10)])"
  by pat_completeness auto
termination
  by (relation "measure id") auto

declare str_nat.simps [simp del]

definition fmt_opt :: "string option \<Rightarrow> string" where
  "fmt_opt v = (case v of None \<Rightarrow> ''None'' | Some s \<Rightarrow> s)"

text \<open>\<open>a or b\<close> on an optional string: \<open>None\<close> and the empty string are false.\<close>

definition or_else :: "string option \<Rightarrow> string \<Rightarrow> string" where
  "or_else v dflt = (case v of None \<Rightarrow> dflt | Some s \<Rightarrow> if s = [] then dflt else s)"

text \<open>
  \<open>db.begin()\<close>, then \<open>try: body\<close>, then \<open>except Exception: db.rollback(); raise\<close>.
  An exception of \<open>db.begin()\<close> itself is raised before the \<open>try\<close>.
\<close>

definition transaction ::
    "(DB \<Rightarrow> (exn + 'a) \<times> DB \<times> log_line list) \<Rightarrow> DB \<Rightarrow> (exn + 'a) \<times> DB \<times> log_line list" where
  "transaction body c =
     (case db_begin c of
        Inl e \<Rightarrow> (Inl e, c, [])
      | Inr c1 \<Rightarrow> (case body c1 of
          (Inl e, c2, l) \<Rightarrow> (Inl e, db_rollback c2, l)
        | (Inr v, c2, l) \<Rightarrow> (Inr v, c2, l)))"

definition news_dict :: "NewsItem \<Rightarrow> string \<Rightarrow> news_item" where
  "news_dict news raw_hash = \<lparr>item_source = Some (ni_source news),
     item_tier = Some (ni_tier news), item_published_at = Some (ni_published_at news),
     item_title = Some (ni_title news), item_body = Some (ni_body news),
     item_url = Some (ni_url news), item_raw_hash = Some raw_hash\<rparr>"

definition components :: json where
  "components = JObj [(''impact'', JInt 75), (''source_reliability'', JInt 70),
     (''novelty'', JInt 90), (''market_reaction'', JInt 50), (''liquidity'', JInt 50),
     (''risk_penalty'', JInt 10), (''freshness_weight'', JFloat 1.0)]"

text \<open>
  Tx #1. The body of the \<open>try\<close> of \<open>ingest_and_create_signal\<close>, over the news item
  and the mapper it is given.
\<close>

definition ingest_body ::
    "(string \<Rightarrow> string) \<Rightarrow> (string \<Rightarrow> MappingResult option) \<Rightarrow> (string \<Rightarrow> real option)
       \<Rightarrow> NewsItem \<Rightarrow> DB \<Rightarrow> (exn + SignalBundle option) \<times> DB \<times> log_line list" where
  "ingest_body sha256_hex mapper float_of_str news c =
     (let raw_hash = build_hash sha256_hex news;
          (inserted, c1) = insert_news_if_new (news_dict news raw_hash) False c
      in case inserted of
        None \<Rightarrow> (Inr None, db_rollback c1, [DUP_NEWS_SKIPPED])
      | Some news_id \<Rightarrow>
        (case mapper (ni_title news @ '' '' @ ni_body news) of
          None \<Rightarrow> (Inr None, db_rollback c1, [NO_MAPPING])
        | Some mapping \<Rightarrow>
          (let (event_ticker_id, c2) = insert_event_ticker news_id (mr_ticker mapping)
                 (mr_company_name mapping) (mr_confidence mapping) (mr_method mapping) False c1
           in case get_event_ticker event_ticker_id c2 of
             None \<Rightarrow> (Inr None, db_rollback c2, [EVENT_TICKER_NOT_FOUND])
           | Some row \<Rightarrow>
             (let event_ticker = \<lparr>evt_id = et_id row, evt_news_id = et_news_id row,
                                  evt_map_confidence = et_map_confidence row\<rparr>
              in case validate_signal_binding news_id event_ticker default_min_conf of
                Inl e \<Rightarrow> (Inl e, c2, [])
              | Inr u \<Rightarrow>
                (let weights = get_score_weights float_of_str c2
                 in case compute_scores \<lparr>impact = 75, source_reliability = 70, novelty = 90,
                          market_reaction = 50, liquidity = 50, risk_penalty = 10\<rparr> weights of
                   Inl e \<Rightarrow> (Inl e, c2, [])
                 | Inr (raw_score, total_score) \<Rightarrow>
                   (case insert_signal \<lparr>pl_news_id = news_id,
                            pl_event_ticker_id = event_ticker_id,
                            pl_ticker = mr_ticker mapping, pl_raw_score = raw_score,
                            pl_total_score = total_score, pl_components = components,
                            pl_priced_in_flag = ''LOW'', pl_decision = ''BUY''\<rparr> False c2 of
                      (Inl e, c3) \<Rightarrow> (Inl e, c3, [])
                    | (Inr signal_id, c3) \<Rightarrow>
                        (Inr (Some \<lparr>sb_signal_id = signal_id, sb_ticker = mr_ticker mapping\<rparr>),
                         db_commit c3, [])))))))"

definition ingest_with ::
    "(string \<Rightarrow> string) \<Rightarrow> (string \<Rightarrow> MappingResult option) \<Rightarrow> (string \<Rightarrow> real option)
       \<Rightarrow> NewsItem \<Rightarrow> DB \<Rightarrow> (exn + SignalBundle option) \<times> DB \<times> log_line list" where
  "ingest_with sha256_hex mapper float_of_str news c =
     transaction (ingest_body sha256_hex mapper float_of_str news) c"

text \<open>The function as the source has it: on \<open>sample_news()\<close>, with \<open>map_ticker\<close>.\<close>

definition ingest_and_create_signal ::
    "(string \<Rightarrow> string) \<Rightarrow> (string \<Rightarrow> real option) \<Rightarrow> string \<Rightarrow> DB
       \<Rightarrow> (exn + SignalBundle option) \<times> DB \<times> log_line list" where
  "ingest_and_create_signal sha256_hex float_of_str now c =
     ingest_with sha256_hex map_ticker float_of_str (sample_news now) c"

text \<open>
  Tx #2, the body of the first \<open>try\<close> of \<open>execute_signal\<close>. It returns
  \<open>Some position_id\<close> when it committed and control goes on to Tx #3, and \<open>None\<close>
  where the source returns \<open>False\<close>. \<open>send_order\<close> is the broker that
  \<open>_build_broker()\<close> made; \<open>trade_date\<close> is today's date.
\<close>

definition entry_body ::
    "KillSwitch \<Rightarrow> broker \<Rightarrow> string \<Rightarrow> nat \<Rightarrow> string \<Rightarrow> real \<Rightarrow> DB
       \<Rightarrow> (exn + nat option) \<times> DB \<times> log_line list" where
  "entry_body kill_switch send_order trade_date signal_id ticker qty c =
     (let c1 = ensure_risk_state_today trade_date False c;
          rs = get_risk_state trade_date c1
      in if rs = None \<or> rs = Some [] then
           (Inr None, db_rollback c1, [BLOCKED ''RISK_STATE_MISSING''])
         else
          (let risk = can_trade kill_switch rs
           in if \<not> allowed risk then
                (Inr None, db_rollback c1, [BLOCKED (fmt_opt (reason_code risk))])
              else
               (let (position_id, c2) = create_position ticker signal_id qty False c1
                in case insert_order position_id signal_id ticker ''BUY'' qty ''MARKET''
                          ''SENT'' None False c2 of
                  (Inl e, c3) \<Rightarrow> (Inl e, c3, [])
                | (Inr order_id, c3) \<Rightarrow>
                  (case send_order \<lparr>rq_signal_id = signal_id, rq_ticker = ticker,
                           rq_side = ''BUY'', rq_qty = qty, rq_order_type = ''MARKET'',
                           rq_expected_price = Some 83500\<rparr> of
                     Inl e \<Rightarrow> (Inl e, c3, [])
                   | Inr result \<Rightarrow>
                     if res_status result \<noteq> ''FILLED'' then
                       (let (blocked_id, c4) = insert_position_event position_id ''BLOCK''
                              ''BLOCKED'' (or_else (res_reason_code result) ''ORDER_NOT_FILLED'')
                              (JObj [(''signal_id'', JInt (int signal_id)),
                                     (''order_id'', JInt (int order_id))])
                              (Some (''block:'' @ str_nat position_id @ '':'' @ str_nat order_id))
                              False c3
                        in (Inr None, db_rollback c4,
                            [BLOCKED (or_else (res_reason_code result) ''ORDER_NOT_FILLED'')]))
                     else
                       (let c4 = update_order_filled order_id (res_avg_price result) False c3
                        in case set_position_open position_id (res_avg_price result)
                                  (res_avg_price result * qty) False c4 of
                          (Inl e, c5) \<Rightarrow> (Inl e, c5, [])
                        | (Inr u, c5) \<Rightarrow>
                          (let entry_key = ''entry:'' @ str_nat position_id @ '':''
                                           @ str_nat order_id;
                               (first_event_id, c6) = insert_position_event position_id
                                 ''ENTRY'' ''EXECUTED'' ''ENTRY_FILLED''
                                 (JObj [(''signal_id'', JInt (int signal_id)),
                                        (''order_id'', JInt (int order_id)),
                                        (''filled_qty'', JFloat (res_filled_qty result)),
                                        (''avg_price'', JFloat (res_avg_price result))])
                                 (Some entry_key) False c5
                           in (Inr (Some position_id), db_commit c6,
                               [ORDER_FILLED ticker (res_avg_price result) signal_id
                                  position_id first_event_id])))))))"

text \<open>Tx #3, the body of the second \<open>try\<close>: the close simulation.\<close>

definition exit_body ::
    "nat \<Rightarrow> nat \<Rightarrow> string \<Rightarrow> real \<Rightarrow> DB \<Rightarrow> (exn + bool) \<times> DB \<times> log_line list" where
  "exit_body position_id signal_id ticker qty c =
     (case insert_order position_id signal_id ticker ''SELL'' qty ''MARKET'' ''SENT'' None
             False c of
        (Inl e, c1) \<Rightarrow> (Inl e, c1, [])
      | (Inr exit_order_id, c1) \<Rightarrow>
        (let c2 = update_order_filled exit_order_id 83600 False c1
         in case set_position_closed position_id ''TIME_EXIT'' False c2 of
           (Inl e, c3) \<Rightarrow> (Inl e, c3, [])
         | (Inr u, c3) \<Rightarrow>
           (let (exit_event_id, c4) = insert_position_event position_id ''FULL_EXIT''
                  ''EXECUTED'' ''TIME_EXIT''
                  (JObj [(''signal_id'', JInt (int signal_id)),
                         (''exit_order_id'', JInt (int exit_order_id)),
                         (''exit_price'', JFloat 83600)])
                  (Some (''exit:'' @ str_nat position_id @ '':'' @ str_nat exit_order_id))
                  False c3
            in (Inr True, db_commit c4, [POSITION_CLOSED position_id ''TIME_EXIT'']))))"

definition execute_entry ::
    "KillSwitch \<Rightarrow> broker \<Rightarrow> string \<Rightarrow> DB \<Rightarrow> nat \<Rightarrow> string \<Rightarrow> real
       \<Rightarrow> (exn + nat option) \<times> DB \<times> log_line list" where
  "execute_entry kill_switch send_order trade_date c signal_id ticker qty =
     transaction (entry_body kill_switch send_order trade_date signal_id ticker qty) c"

definition execute_exit ::
    "DB \<Rightarrow> nat \<Rightarrow> nat \<Rightarrow> string \<Rightarrow> real \<Rightarrow> (exn + bool) \<times> DB \<times> log_line list" where
  "execute_exit c position_id signal_id ticker qty =
     transaction (exit_body position_id signal_id ticker qty) c"

definition execute_signal ::
    "KillSwitch \<Rightarrow> broker \<Rightarrow> string \<Rightarrow> DB \<Rightarrow> nat \<Rightarrow> string \<Rightarrow> real
       \<Rightarrow> (exn + bool) \<times> DB \<times> log_line list" where
  "execute_signal kill_switch send_order trade_date c signal_id ticker qty =
     (case execute_entry kill_switch send_order trade_date c signal_id ticker qty of
        (Inl e, c1, l1) \<Rightarrow> (Inl e, c1, l1)
      | (Inr None, c1, l1) \<Rightarrow> (Inr False, c1, l1)
      | (Inr (Some position_id), c1, l1) \<Rightarrow>
          (case execute_exit c1 position_id signal_id ticker qty of
             (r, c2, l2) \<Rightarrow> (r, c2, l1 @ l2)))"

text \<open>
  Tx #3 when the storage engine refuses a call. Any call on the connection can fail for
  a reason that lies outside the program, \<open>sqlite3.OperationalError\<close> when the
  database is locked or the disk is full, or any other exception. \<open>fault\<close> names,
  for each call Tx #3 makes on the connection, the exception it is refused with, if it
  is. A refused call changes nothing and raises (\<open>refusable\<close>). Inside
  \<open>insert_position_event\<close> the handler catches \<open>sqlite3.IntegrityError\<close>, so that
  one does not leave the method: the method returns \<open>None\<close>. \<open>begin\<close> is outside the
  \<open>try\<close>, its exception leaves without a rollback; every later one goes through
  \<open>except Exception\<close>, which rolls back and raises again.
\<close>

datatype exit_call =
    BeginCall
  | InsertOrderCall
  | UpdateOrderFilledCall
  | SetPositionClosedCall
  | InsertPositionEventCall
  | CommitCall

definition refusable :: "exn option \<Rightarrow> (DB \<Rightarrow> (exn + 'a) \<times> DB) \<Rightarrow> DB \<Rightarrow> (exn + 'a) \<times> DB" where
  "refusable refusal call c = (case refusal of Some e \<Rightarrow> (Inl e, c) | None \<Rightarrow> call c)"

definition insert_position_event_under ::
    "exn option \<Rightarrow> nat \<Rightarrow> string \<Rightarrow> string \<Rightarrow> string \<Rightarrow> json \<Rightarrow> string option \<Rightarrow> bool \<Rightarrow> DB
       \<Rightarrow> (exn + nat option) \<times> DB" where
  "insert_position_event_under refusal position_id event_type action reason detail_json
       idempotency_key autocommit c =
     (case refusal of
        Some e \<Rightarrow> if e = SqliteIntegrityError then (Inr None, c) else (Inl e, c)
      | None \<Rightarrow>
          (case insert_position_event position_id event_type action reason detail_json
                  idempotency_key autocommit c of
             (r, c1) \<Rightarrow> (Inr r, c1)))"

definition exit_body_under ::
    "(exit_call \<Rightarrow> exn option) \<Rightarrow> nat \<Rightarrow> nat \<Rightarrow> string \<Rightarrow> real \<Rightarrow> DB
       \<Rightarrow> (exn + bool) \<times> DB \<times> log_line list" where
  "exit_body_under fault position_id signal_id ticker qty c =
     (case refusable (fault InsertOrderCall)
             (insert_order position_id signal_id ticker ''SELL'' qty ''MARKET'' ''SENT'' None
                False) c of
        (Inl e, c1) \<Rightarrow> (Inl e, c1, [])
      | (Inr exit_order_id, c1) \<Rightarrow>
        (case refusable (fault UpdateOrderFilledCall)
                (\<lambda>c. (Inr (), update_order_filled exit_order_id 83600 False c)) c1 of
           (Inl e, c2) \<Rightarrow> (Inl e, c2, [])
         | (Inr u, c2) \<Rightarrow>
           (case refusable (fault SetPositionClosedCall)
                   (set_position_closed position_id ''TIME_EXIT'' False) c2 of
              (Inl e, c3) \<Rightarrow> (Inl e, c3, [])
            | (Inr u, c3) \<Rightarrow>
              (case insert_position_event_under (fault InsertPositionEventCall) position_id
                      ''FULL_EXIT'' ''EXECUTED'' ''TIME_EXIT''
                      (JObj [(''signal_id'', JInt (int signal_id)),
                             (''exit_order_id'', JInt (int exit_order_id)),
                             (''exit_price'', JFloat 83600)])
                      (Some (''exit:'' @ str_nat position_id @ '':'' @ str_nat exit_order_id))
                      False c3 of
                 (Inl e, c4) \<Rightarrow> (Inl e, c4, [])
               | (Inr exit_event_id, c4) \<Rightarrow>
                 (case refusable (fault CommitCall) (\<lambda>c. (Inr (), db_commit c)) c4 of
                    (Inl e, c5) \<Rightarrow> (Inl e, c5, [])
                  | (Inr u, c5) \<Rightarrow>
                      (Inr True, c5, [POSITION_CLOSED position_id ''TIME_EXIT'']))))))"

definition execute_exit_under ::
    "(exit_call \<Rightarrow> exn option) \<Rightarrow> DB \<Rightarrow> nat \<Rightarrow> nat \<Rightarrow> string \<Rightarrow> real
       \<Rightarrow> (exn + bool) \<times> DB \<times> log_line list" where
  "execute_exit_under fault c position_id signal_id ticker qty =
     (case fault BeginCall of
        Some e \<Rightarrow> (Inl e, c, [])
      | None \<Rightarrow> transaction (exit_body_under fault position_id signal_id ticker qty) c)"

text \<open>
  \<open>execute_signal\<close> with Tx #3 under such failures. Tx #2 is \<open>execute_entry\<close> as it
  stands: a run in which Tx #2 has committed is one in which none of its calls failed.
\<close>

definition execute_signal_under ::
    "(exit_call \<Rightarrow> exn option) \<Rightarrow> KillSwitch \<Rightarrow> broker \<Rightarrow> string \<Rightarrow> DB \<Rightarrow> nat \<Rightarrow> string
       \<Rightarrow> real \<Rightarrow> (exn + bool) \<times> DB \<times> log_line list" where
  "execute_signal_under fault kill_switch send_order trade_date c signal_id ticker qty =
     (case execute_entry kill_switch send_order trade_date c signal_id ticker qty of
        (Inl e, c1, l1) \<Rightarrow> (Inl e, c1, l1)
      | (Inr None, c1, l1) \<Rightarrow> (Inr False, c1, l1)
      | (Inr (Some position_id), c1, l1) \<Rightarrow>
          (case execute_exit_under fault c1 position_id signal_id ticker qty of
             (r, c2, l2) \<Rightarrow> (r, c2, l1 @ l2)))"

section \<open>Notions used to state the properties\<close>

text \<open>
  The definitions of this section are not code of the repository: they name what the
  properties below are about.
\<close>

text \<open>
  Some row of \<open>positions\<close> has this id and this status; some order of the position
  has this side and status; some position event has this idempotency key.
\<close>

definition position_in :: "string \<Rightarrow> nat \<Rightarrow> DB \<Rightarrow> bool" where
  "position_in status position_id c =
     list_ex (\<lambda>p. ps_position_id p = position_id \<and> ps_status p = status)
       (rows (positions (view c)))"

definition order_in :: "string \<Rightarrow> string \<Rightarrow> nat \<Rightarrow> DB \<Rightarrow> bool" where
  "order_in side status position_id c =
     list_ex (\<lambda>r. od_position_id r = position_id \<and> od_side r = side \<and> od_status r = status)
       (rows (orders (view c)))"

definition event_keyed :: "string \<Rightarrow> DB \<Rightarrow> bool" where
  "event_keyed key c =
     (Some key \<in> set (map pe_idempotency_key (rows (position_events (view c)))))"

text \<open>
  The weight the specification gives a component: the supplied one, or the built-in
  default where the mapping is absent or lacks the key; and the documented score.
\<close>

definition weight_for :: "(string \<times> real) list option \<Rightarrow> string \<Rightarrow> real \<Rightarrow> real" where
  "weight_for weights k builtin =
     (case weights of None \<Rightarrow> builtin
      | Some ws \<Rightarrow> (case map_of ws k of None \<Rightarrow> builtin | Some v \<Rightarrow> v))"

definition weighted_sum :: "ScoreInput \<Rightarrow> (string \<times> real) list option \<Rightarrow> real" where
  "weighted_sum inp weights =
     weight_for weights ''impact'' 0.30 * impact inp
     + weight_for weights ''source_reliability'' 0.20 * source_reliability inp
     + weight_for weights ''novelty'' 0.20 * novelty inp
     + weight_for weights ''market_reaction'' 0.15 * market_reaction inp
     + weight_for weights ''liquidity'' 0.15 * liquidity inp
     - risk_penalty inp"

text \<open>
  What \<open>float\<close> accepts and the number it gives, as Python documents it: a boolean
  (\<open>0\<close> or \<open>1\<close>), a float (itself), an integer within the range of a double, a string
  that Python's parser accepts. Nothing else: not \<open>None\<close>, not a list, not a dict.
  \<open>float_value\<close> is the number for a value that \<open>float\<close> accepts; for the others
  it is of no account.
\<close>

fun convertible :: "(string \<Rightarrow> real option) \<Rightarrow> json \<Rightarrow> bool" where
  "convertible float_of_str (JBool b) = True"
| "convertible float_of_str (JInt i) = (- (2 ^ 1024 - 2 ^ 970) < i \<and> i < 2 ^ 1024 - 2 ^ 970)"
| "convertible float_of_str (JFloat r) = True"
| "convertible float_of_str (JStr s) = (float_of_str s \<noteq> None)"
| "convertible float_of_str JNull = False"
| "convertible float_of_str (JArr xs) = False"
| "convertible float_of_str (JObj kvs) = False"

fun float_value :: "(string \<Rightarrow> real option) \<Rightarrow> json \<Rightarrow> real" where
  "float_value float_of_str (JBool b) = (if b then 1 else 0)"
| "float_value float_of_str (JInt i) = of_int i"
| "float_value float_of_str (JFloat r) = r"
| "float_value float_of_str (JStr s) = the (float_of_str s)"
| "float_value float_of_str JNull = 0"
| "float_value float_of_str (JArr xs) = 0"
| "float_value float_of_str (JObj kvs) = 0"

text \<open>
  The object stored in the registry: the \<open>score_weights\<close> row exists and its text
  parses to an object. The registry stores a weight mapping (\<open>weights_stored\<close>) when
  that object is non-empty and each of the five keys is there with a value that
  \<open>float\<close> converts; \<open>stored_weights\<close> is then the mapping: the five keys, in order,
  each with the number \<open>float\<close> gives for its stored value.
\<close>

definition stored_object :: "DB \<Rightarrow> (string \<times> json) list option" where
  "stored_object c =
     (case find (\<lambda>r. pr_name r = ''score_weights'') (rows (parameter_registry (view c))) of
        None \<Rightarrow> None
      | Some r \<Rightarrow> (case pr_value_json r of Some (JObj kvs) \<Rightarrow> Some kvs | _ \<Rightarrow> None))"

definition has_float :: "(string \<Rightarrow> real option) \<Rightarrow> (string \<times> json) list \<Rightarrow> string \<Rightarrow> bool" where
  "has_float float_of_str kvs k =
     (case map_of kvs k of None \<Rightarrow> False | Some v \<Rightarrow> convertible float_of_str v)"

definition weights_stored :: "(string \<Rightarrow> real option) \<Rightarrow> DB \<Rightarrow> bool" where
  "weights_stored float_of_str c =
     (case stored_object c of
        None \<Rightarrow> False
      | Some kvs \<Rightarrow> kvs \<noteq> [] \<and> list_all (has_float float_of_str kvs) score_weight_keys)"

definition stored_weights :: "(string \<Rightarrow> real option) \<Rightarrow> DB \<Rightarrow> (string \<times> real) list" where
  "stored_weights float_of_str c =
     (case stored_object c of
        None \<Rightarrow> []
      | Some kvs \<Rightarrow> map (\<lambda>k. (k, float_value float_of_str (the (map_of kvs k))))
          score_weight_keys)"

text \<open>
  The risk state \<open>execute_signal\<close> reads in Tx #2, after it has made sure that today's
  row exists, and the order request it sends to the broker.
\<close>

definition todays_risk_state :: "string \<Rightarrow> DB \<Rightarrow> (string \<times> int) list option" where
  "todays_risk_state trade_date c =
     get_risk_state trade_date (ensure_risk_state_today trade_date False c)"

definition entry_request :: "nat \<Rightarrow> string \<Rightarrow> real \<Rightarrow> OrderRequest" where
  "entry_request signal_id ticker qty = \<lparr>rq_signal_id = signal_id, rq_ticker = ticker,
     rq_side = ''BUY'', rq_qty = qty, rq_order_type = ''MARKET'',
     rq_expected_price = Some 83500\<rparr>"

text \<open>
  The news item can be inserted: its tier passes the \<open>check\<close> and neither its url nor
  its hash is in the table yet.
\<close>

definition insertable :: "(string \<Rightarrow> string) \<Rightarrow> NewsItem \<Rightarrow> DB \<Rightarrow> bool" where
  "insertable sha256_hex news c =
     (news_check (news_dict news (build_hash sha256_hex news))
      \<and> news_unique (news_dict news (build_hash sha256_hex news)) (view c))"

section \<open>Concrete inputs and databases\<close>

text \<open>
  The inputs the properties are tried on. The digest and Python's string-to-float parser
  are replaced by stand-ins.
\<close>

definition stub_sha256 :: "string \<Rightarrow> string" where
  "stub_sha256 s = s"

definition stub_float_of_str :: "string \<Rightarrow> real option" where
  "stub_float_of_str s = None"

text \<open>
  A database with one position, pending, and the same with the position opened; a
  registry whose \<open>score_weights\<close> object has one of the five keys only.
\<close>

definition pending_position :: DB where
  "pending_position = snd (create_position ''005930'' 1 1 True fresh_db)"

definition open_position :: DB where
  "open_position = snd (set_position_open 1 83500 83500 True pending_position)"

definition partial_weights_db :: DB where
  "partial_weights_db = \<lparr>committed = empty_store\<lparr>parameter_registry := \<lparr>rows =
       [\<lparr>pr_id = 1, pr_name = ''score_weights'',
         pr_value_json = Some (JObj [(''impact'', JFloat 0.5)])\<rparr>], seq = 1\<rparr>\<rparr>,
     pending = None\<rparr>"

text \<open>
  A registry whose \<open>score_weights\<close> object gives the five weights as an integer, a
  boolean, a string and two floats, with a parser that knows that string; and one whose
  object has the five keys, the first with an integer that is no double.
\<close>

definition half_float_of_str :: "string \<Rightarrow> real option" where
  "half_float_of_str s = (if s = ''0.5'' then Some 0.5 else None)"

definition mixed_weights_db :: DB where
  "mixed_weights_db = \<lparr>committed = empty_store\<lparr>parameter_registry := \<lparr>rows =
       [\<lparr>pr_id = 1, pr_name = ''score_weights'',
         pr_value_json = Some (JObj [(''impact'', JInt 2),
           (''source_reliability'', JBool True), (''novelty'', JStr ''0.5''),
           (''market_reaction'', JFloat 0.25), (''liquidity'', JFloat 0)])\<rparr>], seq = 1\<rparr>\<rparr>,
     pending = None\<rparr>"

definition huge_weight_db :: DB where
  "huge_weight_db = \<lparr>committed = empty_store\<lparr>parameter_registry := \<lparr>rows =
       [\<lparr>pr_id = 1, pr_name = ''score_weights'',
         pr_value_json = Some (JObj [(''impact'', JInt (2 ^ 1024)),
           (''source_reliability'', JFloat 0.20), (''novelty'', JFloat 0.20),
           (''market_reaction'', JFloat 0.15), (''liquidity'', JFloat 0.15)])\<rparr>], seq = 1\<rparr>\<rparr>,
     pending = None\<rparr>"

text \<open>
  The engine refusing one call of Tx #3 with \<open>sqlite3.OperationalError\<close>.
\<close>

definition refusing :: "exit_call \<Rightarrow> exit_call \<Rightarrow> exn option" where
  "refusing k call = (if call = k then Some OperationalError else None)"

text \<open>
  \<open>ingested_db\<close> is a new database after \<open>init\<close> and Tx #1 on the sample news,
  \<open>entered_db\<close> is that database after Tx #2 with the paper broker, \<open>settled_db\<close> after
  Tx #3. \<open>risk_disabled_db\<close> is \<open>ingested_db\<close> with today's trading switched off,
  and \<open>exit_recorded_db\<close> is \<open>entered_db\<close> with an event already stored under the key
  Tx #3 will use.
\<close>

definition ingested_store :: store where
  "ingested_store = \<lparr>
     news_events = \<lparr>rows = [\<lparr>ne_id = 1, ne_source = ''sample'', ne_tier = 2,
        ne_published_at = ''2026-11-03T00:00:00+00:00'', ne_title = sample_title,
        ne_body = Some sample_body, ne_url = Some ''https://example.com/news/1'',
        ne_raw_hash = ''sample|https://example.com/news/1|'' @ sample_title\<rparr>], seq = 1\<rparr>,
     event_tickers = \<lparr>rows = [\<lparr>et_id = 1, et_news_id = 1, et_ticker = ''005930'',
        et_company_name = alias_samsung_electronics, et_map_confidence = 0.98,
        et_mapping_method = ''alias_dict''\<rparr>], seq = 1\<rparr>,
     signal_scores = \<lparr>rows = [\<lparr>sg_id = 1, sg_news_id = 1, sg_event_ticker_id = 1,
        sg_ticker = ''005930'', sg_raw_score = 59.5, sg_total_score = 59.5,
        sg_components = components, sg_priced_in_flag = ''LOW'',
        sg_decision = ''BUY''\<rparr>], seq = 1\<rparr>,
     positions = empty_table, orders = empty_table, position_events = empty_table,
     risk_state = [],
     parameter_registry = \<lparr>rows = [\<lparr>pr_id = 1, pr_name = ''score_weights'',
        pr_value_json = Some DEFAULT_SCORE_WEIGHTS_JSON\<rparr>], seq = 1\<rparr>\<rparr>"

definition ingested_db :: DB where
  "ingested_db = \<lparr>committed = ingested_store, pending = None\<rparr>"

definition risk_row_of :: "int \<Rightarrow> risk_row" where
  "risk_row_of flag = \<lparr>rs_trade_date = ''2026-11-03'', rs_daily_realized_pnl = 0,
     rs_daily_unrealized_pnl = 0, rs_daily_loss_limit_hit = 0, rs_consecutive_losses = 0,
     rs_cooldown_until = None, rs_trading_enabled = flag\<rparr>"

definition risk_disabled_db :: DB where
  "risk_disabled_db =
     \<lparr>committed = ingested_store\<lparr>risk_state := [risk_row_of 0]\<rparr>, pending = None\<rparr>"

definition entry_order :: order_row where
  "entry_order = \<lparr>od_id = 1, od_position_id = 1, od_signal_id = 1, od_ticker = ''005930'',
     od_side = ''BUY'', od_qty = 1, od_order_type = ''MARKET'', od_price = Some 83500,
     od_status = ''FILLED''\<rparr>"

definition entry_event :: position_event_row where
  "entry_event = \<lparr>pe_id = 1, pe_position_id = 1, pe_event_type = ''ENTRY'',
     pe_action = ''EXECUTED'', pe_reason_code = ''ENTRY_FILLED'',
     pe_detail_json = JObj [(''signal_id'', JInt 1), (''order_id'', JInt 1),
       (''filled_qty'', JFloat 1), (''avg_price'', JFloat 83500)],
     pe_idempotency_key = Some ''entry:1:1''\<rparr>"

definition the_position :: "string \<Rightarrow> string option \<Rightarrow> position_row" where
  "the_position status exit_reason = \<lparr>ps_position_id = 1, ps_ticker = ''005930'',
     ps_signal_id = 1, ps_status = status, ps_qty = 1, ps_avg_entry_price = Some 83500,
     ps_opened_value = Some 83500, ps_leverage = 1, ps_exit_reason_code = exit_reason\<rparr>"

definition entered_store :: "string \<Rightarrow> string option \<Rightarrow> store" where
  "entered_store status exit_reason = ingested_store\<lparr>
     positions := \<lparr>rows = [the_position status exit_reason], seq = 1\<rparr>,
     orders := \<lparr>rows = [entry_order], seq = 1\<rparr>,
     position_events := \<lparr>rows = [entry_event], seq = 1\<rparr>,
     risk_state := [risk_row_of 1]\<rparr>"

definition entered_db :: DB where
  "entered_db = \<lparr>committed = entered_store ''OPEN'' None, pending = None\<rparr>"

definition settled_db :: DB where
  "settled_db = \<lparr>committed = (entered_store ''CLOSED'' (Some ''TIME_EXIT''))\<lparr>
       orders := \<lparr>rows = [entry_order,
         \<lparr>od_id = 2, od_position_id = 1, od_signal_id = 1, od_ticker = ''005930'',
          od_side = ''SELL'', od_qty = 1, od_order_type = ''MARKET'', od_price = Some 83600,
          od_status = ''FILLED''\<rparr>], seq = 2\<rparr>,
       position_events := \<lparr>rows = [entry_event,
         \<lparr>pe_id = 2, pe_position_id = 1, pe_event_type = ''FULL_EXIT'',
          pe_action = ''EXECUTED'', pe_reason_code = ''TIME_EXIT'',
          pe_detail_json = JObj [(''signal_id'', JInt 1), (''exit_order_id'', JInt 2),
            (''exit_price'', JFloat 83600)],
          pe_idempotency_key = Some ''exit:1:2''\<rparr>], seq = 2\<rparr>\<rparr>,
     pending = None\<rparr>"

definition exit_recorded_db :: DB where
  "exit_recorded_db = \<lparr>committed = (entered_store ''OPEN'' None)\<lparr>
       position_events := \<lparr>rows = [entry_event,
         \<lparr>pe_id = 2, pe_position_id = 1, pe_event_type = ''FULL_EXIT'',
          pe_action = ''EXECUTED'', pe_reason_code = ''TIME_EXIT'',
          pe_detail_json = JObj [(''signal_id'', JInt 1), (''exit_order_id'', JInt 2),
            (''exit_price'', JFloat 83600)],
          pe_idempotency_key = Some ''exit:1:2''\<rparr>], seq = 2\<rparr>\<rparr>,
     pending = None\<rparr>"

text \<open>
  A broker that rejects every order; the mapping \<open>map_ticker\<close> finds for the sample
  news; a mapper whose confidence is below the minimum; a news item whose tier violates
  the \<open>check\<close> constraint while its url and hash are new.
\<close>

definition rejecting_broker :: broker where
  "rejecting_broker req = Inr \<lparr>res_status = ''REJECTED'', res_filled_qty = 0,
     res_avg_price = 0, res_reason_code = Some ''SIM_REJECT''\<rparr>"

definition sample_mapping :: MappingResult where
  "sample_mapping = \<lparr>mr_ticker = ''005930'', mr_company_name = alias_samsung_electronics,
     mr_confidence = 0.98, mr_method = ''alias_dict''\<rparr>"

definition low_confidence_mapper :: "string \<Rightarrow> MappingResult option" where
  "low_confidence_mapper txt = Some \<lparr>mr_ticker = ''005930'',
     mr_company_name = ''AMBIGUOUS'', mr_confidence = 0.20, mr_method = ''alias_dict''\<rparr>"

definition bad_tier_item :: news_item where
  "bad_tier_item = \<lparr>item_source = Some ''test'', item_tier = Some 4,
     item_published_at = Some ''2026-01-01T00:00:00+00:00'', item_title = Some ''title'',
     item_body = Some ''body'', item_url = Some ''https://example.com/t4'',
     item_raw_hash = Some ''h4''\<rparr>"

section \<open>The connection: what each step does to the view and to the file\<close>

lemma view_dml [simp]: "view (dml f c) = f (view c)"
  by (simp add: view_def dml_def)

lemma committed_dml [simp]: "committed (dml f c) = committed c"
  by (simp add: dml_def)

lemma view_db_commit [simp]: "view (db_commit c) = view c"
  by (simp add: view_def db_commit_def)

lemma committed_db_commit [simp]: "committed (db_commit c) = view c"
  by (simp add: db_commit_def)

lemma pending_db_commit [simp]: "pending (db_commit c) = None"
  by (simp add: db_commit_def)

lemma view_finish [simp]: "view (finish ac c) = view c"
  by (simp add: finish_def)

lemma view_fresh_db [simp]: "view fresh_db = empty_store"
  by (simp add: view_def fresh_db_def)

lemma update_rows_no_hit:
  "rowcount hit t = 0 \<Longrightarrow> update_rows hit f t = t"
  by (simp add: update_rows_def rowcount_def filter_empty_conv map_idI)

lemma rowcount_zero_iff:
  "rowcount hit t = 0 \<longleftrightarrow> \<not> list_ex hit (rows t)"
  by (simp add: rowcount_def filter_empty_conv list_ex_iff)

section \<open>Risk gate\<close>

text \<open>
  C6. \<open>can_trade\<close> decides by the first match: an engaged kill switch blocks with
  \<open>KILL_SWITCH_ON\<close> whatever the account state is; otherwise a present account state
  whose \<open>trading_enabled\<close> (read with default 1) is not 1 blocks with \<open>RISK_DISABLED\<close>;
  otherwise trading is allowed. The switch starts off, \<open>on\<close> engages it and \<open>off\<close>
  releases it.
\<close>

theorem can_trade_first_match:
  "(enabled ks \<longrightarrow>
      can_trade ks st = \<lparr>allowed = False, reason_code = Some ''KILL_SWITCH_ON''\<rparr>)
   \<and> (\<not> enabled ks \<and> st = Some d \<and> dict_get d ''trading_enabled'' 1 \<noteq> 1 \<longrightarrow>
      can_trade ks st = \<lparr>allowed = False, reason_code = Some ''RISK_DISABLED''\<rparr>)
   \<and> (\<not> enabled ks \<and> (st = None \<or> (st = Some d \<and> dict_get d ''trading_enabled'' 1 = 1)) \<longrightarrow>
      can_trade ks st = \<lparr>allowed = True, reason_code = None\<rparr>)
   \<and> \<not> enabled KillSwitch_init \<and> enabled (KillSwitch_on ks) \<and> \<not> enabled (KillSwitch_off ks)"
  by (auto simp: can_trade_def Let_def KillSwitch_init_def KillSwitch_on_def KillSwitch_off_def)

theorem can_trade_first_match_witness:
  "can_trade (KillSwitch_on KillSwitch_init) (Some [(''trading_enabled'', 0)])
     = \<lparr>allowed = False, reason_code = Some ''KILL_SWITCH_ON''\<rparr>
   \<and> can_trade (KillSwitch_on KillSwitch_init) (Some [(''trading_enabled'', 1)])
     = \<lparr>allowed = False, reason_code = Some ''KILL_SWITCH_ON''\<rparr>
   \<and> can_trade KillSwitch_init (Some [(''trading_enabled'', 0)])
     = \<lparr>allowed = False, reason_code = Some ''RISK_DISABLED''\<rparr>
   \<and> can_trade KillSwitch_init (Some [(''trading_enabled'', 1)])
     = \<lparr>allowed = True, reason_code = None\<rparr>
   \<and> can_trade (KillSwitch_off (KillSwitch_on KillSwitch_init)) None
     = \<lparr>allowed = True, reason_code = None\<rparr>"
proof -
  have on: "enabled (KillSwitch_on KillSwitch_init)"
    and off: "\<not> enabled KillSwitch_init"
      "\<not> enabled (KillSwitch_off (KillSwitch_on KillSwitch_init))"
    by (simp_all add: KillSwitch_on_def KillSwitch_off_def KillSwitch_init_def)
  have zero: "dict_get [(''trading_enabled'', 0)] ''trading_enabled'' 1 \<noteq> 1"
    and one: "dict_get [(''trading_enabled'', 1)] ''trading_enabled'' 1 = 1"
    by (simp_all add: dict_get_def)
  show ?thesis
    using can_trade_first_match [of "KillSwitch_on KillSwitch_init"
        "Some [(''trading_enabled'', 0)]"]
      can_trade_first_match [of "KillSwitch_on KillSwitch_init"
        "Some [(''trading_enabled'', 1)]"]
      can_trade_first_match [of KillSwitch_init "Some [(''trading_enabled'', 0)]"
        "[(''trading_enabled'', 0)]"]
      can_trade_first_match [of KillSwitch_init "Some [(''trading_enabled'', 1)]"
        "[(''trading_enabled'', 1)]"]
      can_trade_first_match [of "KillSwitch_off (KillSwitch_on KillSwitch_init)" None]
      on off zero one
    by simp
qed

section \<open>Scoring\<close>

lemma getitem_merge:
  "map_of DEFAULT_WEIGHTS k = Some d \<Longrightarrow>
   getitem (merge_weights weights) k = Inr (weight_for weights k d)"
  by (cases weights)
     (simp_all add: getitem_def merge_weights_def weight_for_def map_add_def
        split: option.splits)

lemma clamp_cases:
  "clamp v 0 100 = (if v < 0 then 0 else if 100 < v then 100 else v)"
  by (simp add: clamp_def max_def min_def)

text \<open>
  C8. For every input and every weight mapping, absent or partial, \<open>compute_scores\<close>
  raises nothing and returns the documented weighted sum (each weight the supplied one
  or else its built-in default 0.30, 0.20, 0.20, 0.15, 0.15) minus the risk penalty,
  together with that sum clamped into the interval from 0 to 100.
\<close>

theorem compute_scores_weighted_sum:
  "compute_scores inp weights =
     Inr (weighted_sum inp weights,
          if weighted_sum inp weights < 0 then 0
          else if 100 < weighted_sum inp weights then 100
          else weighted_sum inp weights)"
proof -
  have w: "getitem (merge_weights weights) ''impact''
             = Inr (weight_for weights ''impact'' 0.30)"
    "getitem (merge_weights weights) ''source_reliability''
       = Inr (weight_for weights ''source_reliability'' 0.20)"
    "getitem (merge_weights weights) ''novelty''
       = Inr (weight_for weights ''novelty'' 0.20)"
    "getitem (merge_weights weights) ''market_reaction''
       = Inr (weight_for weights ''market_reaction'' 0.15)"
    "getitem (merge_weights weights) ''liquidity''
       = Inr (weight_for weights ''liquidity'' 0.15)"
    by (rule getitem_merge, simp add: DEFAULT_WEIGHTS_def)+
  show ?thesis
    by (simp add: compute_scores_def Let_def w clamp_cases weighted_sum_def)
qed

theorem compute_scores_weighted_sum_witness:
  "compute_scores \<lparr>impact = 75, source_reliability = 70, novelty = 90,
       market_reaction = 50, liquidity = 50, risk_penalty = 10\<rparr> (Some [(''impact'', 0.5)])
     = Inr (74.5, 74.5)
   \<and> compute_scores \<lparr>impact = 75, source_reliability = 70, novelty = 90,
       market_reaction = 50, liquidity = 50, risk_penalty = 100\<rparr> None
     = Inr (- 30.5, 0)"
  using compute_scores_weighted_sum [of "\<lparr>impact = 75, source_reliability = 70,
       novelty = 90, market_reaction = 50, liquidity = 50, risk_penalty = 10\<rparr>"
       "Some [(''impact'', 0.5)]"]
    compute_scores_weighted_sum [of "\<lparr>impact = 75, source_reliability = 70,
       novelty = 90, market_reaction = 50, liquidity = 50, risk_penalty = 100\<rparr>" None]
  by (simp add: weighted_sum_def weight_for_def)

section \<open>Guarded transitions\<close>

lemma open_refused:
  assumes "\<not> position_in ''PENDING_ENTRY'' pid c"
  shows "set_position_open pid a v ac c = (Inl IllegalTransitionError, dml (\<lambda>s. s) c)"
proof -
  let ?hit = "\<lambda>p. ps_position_id p = pid \<and> ps_status p = ''PENDING_ENTRY''"
  have z: "rowcount ?hit (positions (view c)) = 0"
    using assms by (simp add: rowcount_zero_iff position_in_def)
  show ?thesis
    by (simp add: set_position_open_def Let_def z update_rows_no_hit dml_def)
qed

lemma closed_refused:
  assumes "\<not> position_in ''OPEN'' pid c"
  shows "set_position_closed pid r ac c = (Inl IllegalTransitionError, dml (\<lambda>s. s) c)"
proof -
  let ?hit = "\<lambda>p. ps_position_id p = pid \<and> ps_status p = ''OPEN''"
  have z: "rowcount ?hit (positions (view c)) = 0"
    using assms by (simp add: rowcount_zero_iff position_in_def)
  show ?thesis
    by (simp add: set_position_closed_def Let_def z update_rows_no_hit dml_def)
qed

lemma open_accepted:
  "position_in ''PENDING_ENTRY'' pid c \<Longrightarrow> fst (set_position_open pid a v ac c) = Inr ()"
  by (simp add: set_position_open_def Let_def rowcount_zero_iff position_in_def)

lemma closed_accepted:
  "position_in ''OPEN'' pid c \<Longrightarrow> fst (set_position_closed pid r ac c) = Inr ()"
  by (simp add: set_position_closed_def Let_def rowcount_zero_iff position_in_def)

text \<open>
  C3. When no row with the given id is in \<open>PENDING_ENTRY\<close>, \<open>set_position_open\<close>
  raises \<open>IllegalTransitionError\<close> and every row, in the transaction's view and in the
  file, is as before; likewise \<open>set_position_closed\<close> when no row with the id is
  \<open>OPEN\<close>. The zero-row check is the only guard: whenever such a row exists the call
  returns normally.
\<close>

theorem guarded_transitions:
  "(\<not> position_in ''PENDING_ENTRY'' pid c \<longrightarrow>
      fst (set_position_open pid a v ac c) = Inl IllegalTransitionError
      \<and> view (snd (set_position_open pid a v ac c)) = view c
      \<and> committed (snd (set_position_open pid a v ac c)) = committed c)
   \<and> (\<not> position_in ''OPEN'' pid c \<longrightarrow>
      fst (set_position_closed pid r ac c) = Inl IllegalTransitionError
      \<and> view (snd (set_position_closed pid r ac c)) = view c
      \<and> committed (snd (set_position_closed pid r ac c)) = committed c)
   \<and> (position_in ''PENDING_ENTRY'' pid c \<longrightarrow>
      fst (set_position_open pid a v ac c) = Inr ())
   \<and> (position_in ''OPEN'' pid c \<longrightarrow>
      fst (set_position_closed pid r ac c) = Inr ())"
  by (simp add: open_refused closed_refused open_accepted closed_accepted)

lemma pending_position_eval:
  "view pending_position = empty_store\<lparr>positions := \<lparr>rows =
     [\<lparr>ps_position_id = 1, ps_ticker = ''005930'', ps_signal_id = 1,
       ps_status = ''PENDING_ENTRY'', ps_qty = 1, ps_avg_entry_price = None,
       ps_opened_value = None, ps_leverage = 1, ps_exit_reason_code = None\<rparr>], seq = 1\<rparr>\<rparr>"
  by (simp add: pending_position_def create_position_def Let_def
      next_rowid_def empty_store_def empty_table_def append_row_def)

lemma open_position_eval:
  "view open_position = empty_store\<lparr>positions := \<lparr>rows =
     [\<lparr>ps_position_id = 1, ps_ticker = ''005930'', ps_signal_id = 1,
       ps_status = ''OPEN'', ps_qty = 1, ps_avg_entry_price = Some 83500,
       ps_opened_value = Some 83500, ps_leverage = 1, ps_exit_reason_code = None\<rparr>], seq = 1\<rparr>\<rparr>"
  by (simp add: open_position_def set_position_open_def pending_position_eval Let_def
      rowcount_def update_rows_def empty_store_def empty_table_def)

theorem guarded_transitions_witness:
  "fst (set_position_closed 1 ''TIME_EXIT'' True pending_position) = Inl IllegalTransitionError
   \<and> view (snd (set_position_closed 1 ''TIME_EXIT'' True pending_position))
       = view pending_position
   \<and> fst (set_position_open 1 83500 83500 True pending_position) = Inr ()
   \<and> fst (set_position_open 1 83500 83500 True open_position) = Inl IllegalTransitionError
   \<and> view (snd (set_position_open 1 83500 83500 True open_position)) = view open_position
   \<and> fst (set_position_closed 1 ''TIME_EXIT'' True open_position) = Inr ()"
proof -
  have p: "position_in ''PENDING_ENTRY'' 1 pending_position"
    "\<not> position_in ''OPEN'' 1 pending_position"
    by (simp_all add: position_in_def pending_position_eval)
  have q: "position_in ''OPEN'' 1 open_position"
    "\<not> position_in ''PENDING_ENTRY'' 1 open_position"
    by (simp_all add: position_in_def open_position_eval)
  show ?thesis
    using guarded_transitions [of 1 pending_position 83500 83500 True "''TIME_EXIT''"]
      guarded_transitions [of 1 open_position 83500 83500 True "''TIME_EXIT''"] p q
    by simp
qed

section \<open>Score weights from the parameter registry\<close>

lemma convertible_py_float:
  "convertible fos v \<Longrightarrow> py_float fos v = Inr (float_value fos v)"
  by (cases v) (auto simp: float_int_limit_def)

lemma not_convertible_py_float:
  "\<not> convertible fos v \<Longrightarrow> \<exists>e. py_float fos v = Inl e"
  by (cases v) (auto simp: float_int_limit_def)

lemma float_items_obj:
  "list_all (has_float fos kvs) ks \<Longrightarrow>
     float_items fos (JObj kvs) ks
       = Inr (map (\<lambda>k. (k, float_value fos (the (map_of kvs k)))) ks)"
  by (induction ks)
     (auto simp: has_float_def convertible_py_float split: option.splits)

lemma float_items_obj_fail:
  "\<not> list_all (has_float fos kvs) ks \<Longrightarrow> \<exists>e. float_items fos (JObj kvs) ks = Inl e"
proof (induction ks)
  case Nil
  then show ?case by simp
next
  case (Cons k ks)
  show ?case
  proof (cases "map_of kvs k")
    case None
    then show ?thesis by simp
  next
    case (Some v)
    show ?thesis
    proof (cases "convertible fos v")
      case False
      from not_convertible_py_float [OF this] Some show ?thesis by auto
    next
      case True
      from Some True have "has_float fos kvs k"
        by (simp add: has_float_def)
      with Cons.prems have "\<not> list_all (has_float fos kvs) ks"
        by simp
      from Cons.IH [OF this] Some convertible_py_float [OF True] show ?thesis by auto
    qed
  qed
qed

lemma float_items_not_obj:
  "\<forall>kvs. raw \<noteq> JObj kvs \<Longrightarrow> ks \<noteq> [] \<Longrightarrow> float_items fos raw ks = Inl TypeError"
  by (cases ks; cases raw) simp_all

lemma get_parameter_stored_object:
  "stored_object c = Some kvs \<Longrightarrow> get_parameter ''score_weights'' c = JObj kvs"
  by (auto simp: stored_object_def get_parameter_def split: option.splits json.splits)

lemma get_parameter_obj_stored:
  "get_parameter ''score_weights'' c = JObj kvs \<Longrightarrow> stored_object c = Some kvs"
  by (auto simp: stored_object_def get_parameter_def split: option.splits json.splits)

lemma get_score_weights_stored:
  assumes "weights_stored fos c"
  shows "get_score_weights fos c = Some (stored_weights fos c)"
proof -
  from assms obtain kvs where
    o: "stored_object c = Some kvs" and ne: "kvs \<noteq> []"
    and all: "list_all (has_float fos kvs) score_weight_keys"
    by (auto simp: weights_stored_def split: option.splits)
  from get_parameter_stored_object [OF o] float_items_obj [OF all] ne o
  show ?thesis
    by (simp add: get_score_weights_def stored_weights_def)
qed

lemma get_score_weights_not_stored:
  assumes "\<not> weights_stored fos c"
  shows "get_score_weights fos c = None"
proof (cases "get_parameter ''score_weights'' c")
  case (JObj kvs)
  show ?thesis
  proof (cases "kvs = []")
    case True
    with JObj show ?thesis by (simp add: get_score_weights_def)
  next
    case False
    from get_parameter_obj_stored [OF JObj] assms False
    have "\<not> list_all (has_float fos kvs) score_weight_keys"
      by (simp add: weights_stored_def)
    from float_items_obj_fail [OF this] show ?thesis
      using JObj by (auto simp: get_score_weights_def)
  qed
qed (simp_all add: get_score_weights_def float_items_not_obj score_weight_keys_def)

lemma compute_scores_defaults:
  "compute_scores inp None = compute_scores inp (Some DEFAULT_WEIGHTS)"
  by (simp add: compute_scores_def merge_weights_def getitem_def DEFAULT_WEIGHTS_def)

text \<open>
  C10. \<open>get_score_weights\<close> returns a mapping exactly when the registry stores one
  (\<open>weights_stored\<close>): the \<open>score_weights\<close> row exists, its text parses to a
  non-empty object, and each of the five keys is present with a value that \<open>float\<close>
  converts. The mapping it returns is then \<open>stored_weights\<close>: the five keys, each
  with the number \<open>float\<close> gives for the stored value. In every other case, a partial
  object or a value \<open>float\<close> rejects included, it returns \<open>None\<close>, and
  \<open>compute_scores\<close> then uses all five built-in defaults.
\<close>

theorem get_score_weights_all_or_nothing:
  "(weights_stored fos c \<longrightarrow> get_score_weights fos c = Some (stored_weights fos c))
   \<and> (\<not> weights_stored fos c \<longrightarrow>
      get_score_weights fos c = None
      \<and> compute_scores inp (get_score_weights fos c) = compute_scores inp (Some DEFAULT_WEIGHTS))"
  using get_score_weights_stored [of fos c] get_score_weights_not_stored [of fos c]
    compute_scores_defaults [of inp]
  by auto

lemma view_init_fresh:
  "view (init fresh_db) = empty_store\<lparr>parameter_registry := \<lparr>rows =
       [\<lparr>pr_id = 1, pr_name = ''score_weights'',
         pr_value_json = Some DEFAULT_SCORE_WEIGHTS_JSON\<rparr>], seq = 1\<rparr>\<rparr>"
  by (simp add: init_def empty_store_def empty_table_def next_rowid_def append_row_def Let_def)

text \<open>
  A second \<open>init\<close> leaves the stored row as it is and advances the counter of the
  table.
\<close>

lemma view_init_again:
  "view (init (init fresh_db)) = empty_store\<lparr>parameter_registry := \<lparr>rows =
       [\<lparr>pr_id = 1, pr_name = ''score_weights'',
         pr_value_json = Some DEFAULT_SCORE_WEIGHTS_JSON\<rparr>], seq = 2\<rparr>\<rparr>"
  by (simp add: init_def [of "init fresh_db"] view_init_fresh next_rowid_def)

theorem get_score_weights_all_or_nothing_witness:
  "get_score_weights (\<lambda>s. None) (init fresh_db) = Some DEFAULT_WEIGHTS
   \<and> get_score_weights half_float_of_str mixed_weights_db
       = Some [(''impact'', 2), (''source_reliability'', 1), (''novelty'', 0.5),
               (''market_reaction'', 0.25), (''liquidity'', 0)]
   \<and> get_score_weights (\<lambda>s. None) partial_weights_db = None
   \<and> get_score_weights (\<lambda>s. None) huge_weight_db = None
   \<and> get_score_weights (\<lambda>s. None) fresh_db = None
   \<and> compute_scores \<lparr>impact = 75, source_reliability = 70, novelty = 90,
        market_reaction = 50, liquidity = 50, risk_penalty = 10\<rparr>
        (get_score_weights (\<lambda>s. None) partial_weights_db) = Inr (59.5, 59.5)"
proof -
  have oa: "stored_object (init fresh_db) = Some [(''impact'', JFloat 0.30),
     (''source_reliability'', JFloat 0.20), (''novelty'', JFloat 0.20),
     (''market_reaction'', JFloat 0.15), (''liquidity'', JFloat 0.15)]"
    by (simp add: stored_object_def view_init_fresh empty_store_def
        DEFAULT_SCORE_WEIGHTS_JSON_def)
  have a: "weights_stored (\<lambda>s. None) (init fresh_db)"
    "stored_weights (\<lambda>s. None) (init fresh_db) = DEFAULT_WEIGHTS"
    by (simp_all add: weights_stored_def stored_weights_def oa score_weight_keys_def
        has_float_def DEFAULT_WEIGHTS_def)
  have om: "stored_object mixed_weights_db = Some [(''impact'', JInt 2),
           (''source_reliability'', JBool True), (''novelty'', JStr ''0.5''),
           (''market_reaction'', JFloat 0.25), (''liquidity'', JFloat 0)]"
    by (simp add: stored_object_def mixed_weights_db_def view_def empty_store_def)
  have m: "weights_stored half_float_of_str mixed_weights_db"
    "stored_weights half_float_of_str mixed_weights_db
       = [(''impact'', 2), (''source_reliability'', 1), (''novelty'', 0.5),
          (''market_reaction'', 0.25), (''liquidity'', 0)]"
    by (simp_all add: weights_stored_def stored_weights_def om score_weight_keys_def
        has_float_def half_float_of_str_def)
  have b: "\<not> weights_stored (\<lambda>s. None) partial_weights_db"
    by (simp add: weights_stored_def stored_object_def partial_weights_db_def view_def
        empty_store_def score_weight_keys_def has_float_def)
  have h: "\<not> weights_stored (\<lambda>s. None) huge_weight_db"
    by (simp add: weights_stored_def stored_object_def huge_weight_db_def view_def
        empty_store_def score_weight_keys_def has_float_def)
  have c: "\<not> weights_stored (\<lambda>s. None) fresh_db"
    by (simp add: weights_stored_def stored_object_def empty_store_def empty_table_def)
  have e: "compute_scores \<lparr>impact = 75, source_reliability = 70, novelty = 90,
        market_reaction = 50, liquidity = 50, risk_penalty = 10\<rparr> (Some DEFAULT_WEIGHTS)
        = Inr (59.5, 59.5)"
    by (simp add: compute_scores_def merge_weights_def getitem_def DEFAULT_WEIGHTS_def
        clamp_def Let_def)
  note t = get_score_weights_all_or_nothing
  from t [of "\<lambda>s. None" "init fresh_db"] a
  have 1: "get_score_weights (\<lambda>s. None) (init fresh_db) = Some DEFAULT_WEIGHTS"
    by simp
  from t [of half_float_of_str mixed_weights_db] m
  have 2: "get_score_weights half_float_of_str mixed_weights_db
       = Some [(''impact'', 2), (''source_reliability'', 1), (''novelty'', 0.5),
               (''market_reaction'', 0.25), (''liquidity'', 0)]"
    by simp
  from t [of "\<lambda>s. None" partial_weights_db "\<lparr>impact = 75, source_reliability = 70,
        novelty = 90, market_reaction = 50, liquidity = 50, risk_penalty = 10\<rparr>"] b
  have 3: "get_score_weights (\<lambda>s. None) partial_weights_db = None"
    and 4: "compute_scores \<lparr>impact = 75, source_reliability = 70, novelty = 90,
        market_reaction = 50, liquidity = 50, risk_penalty = 10\<rparr>
        (get_score_weights (\<lambda>s. None) partial_weights_db)
      = compute_scores \<lparr>impact = 75, source_reliability = 70, novelty = 90,
        market_reaction = 50, liquidity = 50, risk_penalty = 10\<rparr> (Some DEFAULT_WEIGHTS)"
    by blast+
  from t [of "\<lambda>s. None" huge_weight_db] h
  have 5: "get_score_weights (\<lambda>s. None) huge_weight_db = None"
    by blast
  from t [of "\<lambda>s. None" fresh_db] c
  have 6: "get_score_weights (\<lambda>s. None) fresh_db = None"
    by blast
  from 4 e
  have 7: "compute_scores \<lparr>impact = 75, source_reliability = 70, novelty = 90,
        market_reaction = 50, liquidity = 50, risk_penalty = 10\<rparr>
        (get_score_weights (\<lambda>s. None) partial_weights_db) = Inr (59.5, 59.5)"
    by (rule trans)
  from 1 2 3 5 6 7 show ?thesis
    by (intro conjI)
qed

section \<open>Transactions\<close>

lemma finish_False [simp]: "finish False c = c"
  by (simp add: finish_def)

lemma pending_dml [simp]: "pending (dml f c) = Some (f (view c))"
  by (simp add: dml_def)

lemma committed_db_rollback [simp]: "committed (db_rollback c) = committed c"
  by (simp add: db_rollback_def)

lemma pending_db_rollback [simp]: "pending (db_rollback c) = None"
  by (simp add: db_rollback_def)

lemma db_begin_idle:
  "pending c = None \<Longrightarrow> db_begin c = Inr (c\<lparr>pending := Some (committed c)\<rparr>)"
  by (simp add: db_begin_def)

lemma view_begun [simp]: "view (c\<lparr>pending := Some s\<rparr>) = s"
  by (simp add: view_def)

lemma view_idle: "pending c = None \<Longrightarrow> view c = committed c"
  by (simp add: view_def)

lemma rollback_restores:
  "committed c' = committed c \<Longrightarrow> pending c = None \<Longrightarrow> db_rollback c' = c"
  by (simp add: db_rollback_def)

lemma committed_ensure_risk_state_today [simp]:
  "committed (ensure_risk_state_today td False c) = committed c"
  by (simp add: ensure_risk_state_today_def)

lemma committed_create_position:
  "create_position t s q False c = (n, c') \<Longrightarrow> committed c' = committed c"
  by (auto simp: create_position_def Let_def)

lemma committed_insert_order:
  "insert_order p s t sd q ot st pr False c = (r, c') \<Longrightarrow> committed c' = committed c"
  by (auto simp: insert_order_def Let_def split: if_splits)

lemma committed_update_order_filled [simp]:
  "committed (update_order_filled oid pr False c) = committed c"
  by (simp add: update_order_filled_def)

lemma committed_set_position_open:
  "set_position_open p a v False c = (r, c') \<Longrightarrow> committed c' = committed c"
  by (auto simp: set_position_open_def Let_def split: if_splits)

lemma committed_set_position_closed:
  "set_position_closed p rc False c = (r, c') \<Longrightarrow> committed c' = committed c"
  by (auto simp: set_position_closed_def Let_def split: if_splits)

lemma committed_insert_position_event:
  "insert_position_event p et a rc d k False c = (r, c') \<Longrightarrow> committed c' = committed c"
  by (auto simp: insert_position_event_def Let_def split: if_splits)

lemma exit_body_under_raise:
  assumes "exit_body_under fault p s t q c = (Inl e, c', l)"
  shows "committed c' = committed c \<and> l = []"
proof -
  have r: "refusable f call x = (res, x') \<Longrightarrow>
      (\<And>res x'. call x = (res, x') \<Longrightarrow> committed x' = committed x) \<Longrightarrow>
      committed x' = committed x" for f x res x'
      and call :: "DB \<Rightarrow> (exn + 'b) \<times> DB"
    by (cases f) (auto simp: refusable_def)
  have i: "insert_position_event_under f p' et a rc d k False x = (res, x') \<Longrightarrow>
      committed x' = committed x" for f p' et a rc d k x res x'
    by (cases f)
       (auto simp: insert_position_event_under_def split: if_splits prod.splits
          dest: committed_insert_position_event)
  have o: "committed x' = committed x"
    if "refusable (fault InsertOrderCall)
          (insert_order p s t ''SELL'' q ''MARKET'' ''SENT'' None False) x = (res, x')"
    for x x' res
    using that by (rule r) (rule committed_insert_order)
  have u: "committed x' = committed x"
    if "refusable (fault UpdateOrderFilledCall)
          (\<lambda>c. (Inr (), update_order_filled n 83600 False c)) x = (res, x')"
    for x x' res n
    using that by (rule r) auto
  have cl: "committed x' = committed x"
    if "refusable (fault SetPositionClosedCall)
          (set_position_closed p ''TIME_EXIT'' False) x = (res, x')"
    for x x' res
    using that by (rule r) (rule committed_set_position_closed)
  have cm: "x' = x"
    if "refusable (fault CommitCall) (\<lambda>c. (Inr (), db_commit c)) x = (Inl e', x')"
    for x x' e'
    using that by (cases "fault CommitCall") (auto simp: refusable_def)
  from assms show ?thesis
    by (auto simp: exit_body_under_def split: prod.splits sum.splits
        dest!: o u cl i cm)
qed

lemma execute_exit_under_raise:
  assumes "pending c = None" and "execute_exit_under fault c p s t q = (Inl e, c', l)"
  shows "c' = c \<and> l = []"
proof (cases "fault BeginCall")
  case (Some e')
  with assms(2) show ?thesis by (simp add: execute_exit_under_def)
next
  case None
  let ?c1 = "c\<lparr>pending := Some (committed c)\<rparr>"
  from assms None obtain c2 where
    b: "exit_body_under fault p s t q ?c1 = (Inl e, c2, l)" and c': "c' = db_rollback c2"
    by (auto simp: execute_exit_under_def transaction_def db_begin_idle
        split: prod.splits sum.splits)
  from exit_body_under_raise [OF b] have "committed c2 = committed c" "l = []" by simp_all
  with c' assms(1) show ?thesis by (simp add: rollback_restores)
qed

text \<open>Without failures, Tx #3 is the Tx #3 of \<open>execute_signal\<close>.\<close>

lemma exit_body_under_no_fault:
  "exit_body_under (\<lambda>k. None) p s t q = exit_body p s t q"
  by (rule ext)
     (simp add: exit_body_under_def exit_body_def refusable_def
        insert_position_event_under_def Let_def split: prod.splits sum.splits)

lemma execute_exit_under_no_fault:
  "execute_exit_under (\<lambda>k. None) = execute_exit"
  by (intro ext) (simp add: execute_exit_under_def execute_exit_def exit_body_under_no_fault)

lemma execute_signal_under_no_fault:
  "execute_signal_under (\<lambda>k. None) ks so td c sid tk q = execute_signal ks so td c sid tk q"
  unfolding execute_signal_under_def execute_signal_def execute_exit_under_no_fault ..

lemma view_ensure_risk_state_today:
  "positions (view (ensure_risk_state_today td ac c)) = positions (view c)"
  "orders (view (ensure_risk_state_today td ac c)) = orders (view c)"
  "position_events (view (ensure_risk_state_today td ac c)) = position_events (view c)"
  by (simp_all add: ensure_risk_state_today_def)

lemma view_create_position:
  assumes "create_position t s q ac c = (n, c')"
  shows "view c' = (view c)\<lparr>positions := append_row
           \<lparr>ps_position_id = n, ps_ticker = t, ps_signal_id = s,
            ps_status = ''PENDING_ENTRY'', ps_qty = q, ps_avg_entry_price = None,
            ps_opened_value = None, ps_leverage = 1, ps_exit_reason_code = None\<rparr>
           n (positions (view c))\<rparr>"
  using assms by (auto simp: create_position_def Let_def)

lemma view_insert_order:
  assumes "insert_order p s t sd q ot st pr ac c = (Inr n, c')"
  shows "view c' = (view c)\<lparr>orders := append_row
           \<lparr>od_id = n, od_position_id = p, od_signal_id = s, od_ticker = t, od_side = sd,
            od_qty = q, od_order_type = ot, od_price = pr, od_status = st\<rparr>
           n (orders (view c))\<rparr>"
  using assms by (auto simp: insert_order_def Let_def split: if_splits)

lemma view_update_order_filled:
  "view (update_order_filled oid pr ac c) = (view c)\<lparr>orders :=
     update_rows (\<lambda>r. od_id r = oid) (\<lambda>r. r\<lparr>od_status := ''FILLED'', od_price := Some pr\<rparr>)
       (orders (view c))\<rparr>"
  by (simp add: update_order_filled_def)

lemma view_set_position_open:
  assumes "set_position_open p a v ac c = (r, c')"
  shows "view c' = (view c)\<lparr>positions :=
     update_rows (\<lambda>r. ps_position_id r = p \<and> ps_status r = ''PENDING_ENTRY'')
       (\<lambda>r. r\<lparr>ps_status := ''OPEN'', ps_avg_entry_price := Some a,
              ps_opened_value := Some v\<rparr>) (positions (view c))\<rparr>"
  using assms by (auto simp: set_position_open_def Let_def split: if_splits)

lemma view_set_position_closed:
  assumes "set_position_closed p rc ac c = (r, c')"
  shows "view c' = (view c)\<lparr>positions :=
     update_rows (\<lambda>r. ps_position_id r = p \<and> ps_status r = ''OPEN'')
       (\<lambda>r. r\<lparr>ps_status := ''CLOSED'', ps_exit_reason_code := Some rc\<rparr>)
       (positions (view c))\<rparr>"
  using assms by (auto simp: set_position_closed_def Let_def split: if_splits)

lemma view_insert_position_event:
  assumes "insert_position_event p et a rc d k ac c = (r, c')"
  shows "positions (view c') = positions (view c)" "orders (view c') = orders (view c)"
    "set (rows (position_events (view c))) \<subseteq> set (rows (position_events (view c')))"
  using assms by (auto simp: insert_position_event_def Let_def append_row_def split: if_splits)

lemma keyed_insert_position_event:
  assumes "insert_position_event p et a rc d (Some k) ac c = (r, c')" and "event_check et a"
  shows "event_keyed k c'"
  using assms
  by (auto simp: insert_position_event_def Let_def append_row_def event_keyed_def
      key_unique_def split: if_splits)

lemma entry_body_committed:
  assumes "entry_body ks so td sid tk q c = (Inr (Some pid), c', l)"
  shows "pending c' = None \<and> position_in ''OPEN'' pid c'
         \<and> order_in ''BUY'' ''FILLED'' pid c'
         \<and> (\<exists>oid. event_keyed (''entry:'' @ str_nat pid @ '':'' @ str_nat oid) c')"
proof -
  let ?c1 = "ensure_risk_state_today td False c"
  obtain p c2 where cp: "create_position tk sid q False ?c1 = (p, c2)"
    by (cases "create_position tk sid q False ?c1")
  obtain ro c3 where io: "insert_order p sid tk ''BUY'' q ''MARKET'' ''SENT'' None False c2 = (ro, c3)"
    by (cases "insert_order p sid tk ''BUY'' q ''MARKET'' ''SENT'' None False c2")
  from assms cp io obtain oid res where ro: "ro = Inr oid"
    and res: "so \<lparr>rq_signal_id = sid, rq_ticker = tk, rq_side = ''BUY'', rq_qty = q,
        rq_order_type = ''MARKET'', rq_expected_price = Some 83500\<rparr> = Inr res"
    and filled: "res_status res = ''FILLED''"
    by (auto simp: entry_body_def Let_def split: if_splits sum.splits prod.splits)
  let ?c4 = "update_order_filled oid (res_avg_price res) False c3"
  obtain rp c5 where sp: "set_position_open p (res_avg_price res) (res_avg_price res * q) False ?c4 = (rp, c5)"
    by (cases "set_position_open p (res_avg_price res) (res_avg_price res * q) False ?c4")
  obtain fe c6 where ie: "insert_position_event p ''ENTRY'' ''EXECUTED'' ''ENTRY_FILLED''
       (JObj [(''signal_id'', JInt (int sid)), (''order_id'', JInt (int oid)),
              (''filled_qty'', JFloat (res_filled_qty res)),
              (''avg_price'', JFloat (res_avg_price res))])
       (Some (''entry:'' @ str_nat p @ '':'' @ str_nat oid)) False c5 = (fe, c6)"
    by (metis surj_pair)
  from assms cp io ro res filled sp ie have pid: "pid = p" and c': "c' = db_commit c6"
    by (auto simp: entry_body_def Let_def split: if_splits sum.splits prod.splits)
  have pos: "position_in ''OPEN'' p c6"
    using view_create_position [OF cp] view_insert_order [OF io [unfolded ro]]
      view_set_position_open [OF sp] view_insert_position_event(1) [OF ie]
    by (simp add: position_in_def view_update_order_filled append_row_def update_rows_def
        list_ex_iff)
  have ord: "order_in ''BUY'' ''FILLED'' p c6"
    using view_insert_order [OF io [unfolded ro]]
      view_set_position_open [OF sp] view_insert_position_event(2) [OF ie]
    by (simp add: order_in_def view_update_order_filled append_row_def update_rows_def
        list_ex_iff)
  have key: "event_keyed (''entry:'' @ str_nat p @ '':'' @ str_nat oid) c6"
    by (rule keyed_insert_position_event [OF ie]) (simp add: event_check_def)
  show ?thesis
    using pos ord key
    by (auto simp: pid c' position_in_def order_in_def event_keyed_def)
qed

lemma todays_risk_state_present:
  "\<exists>d. todays_risk_state td c = Some d \<and> d \<noteq> []"
proof -
  let ?rows = "risk_state (view (ensure_risk_state_today td False c))"
  have "td \<in> set (map rs_trade_date ?rows)"
    by (simp add: ensure_risk_state_today_def)
  then have "find (\<lambda>r. rs_trade_date r = td) ?rows \<noteq> None"
    by (auto simp: find_None_iff)
  then show ?thesis
    by (auto simp: todays_risk_state_def get_risk_state_def risk_row_dict_def)
qed

lemma todays_risk_state_view:
  "view c' = view c \<Longrightarrow> todays_risk_state td c' = todays_risk_state td c"
  by (simp add: todays_risk_state_def get_risk_state_def ensure_risk_state_today_def)

lemma entry_body_blocked_by_risk:
  assumes "\<not> allowed (can_trade ks (todays_risk_state td c))"
  shows "entry_body ks so td sid tk q c =
    (Inr None, db_rollback (ensure_risk_state_today td False c),
     [BLOCKED (fmt_opt (reason_code (can_trade ks (todays_risk_state td c))))])"
  using assms todays_risk_state_present [of td c]
  by (auto simp: entry_body_def Let_def todays_risk_state_def)

lemma entry_body_blocked_by_broker:
  assumes "allowed (can_trade ks (todays_risk_state td c))"
    and "so (entry_request sid tk q) = Inr res" and "res_status res \<noteq> ''FILLED''"
  shows "\<exists>c'. entry_body ks so td sid tk q c =
      (Inr None, db_rollback c', [BLOCKED (or_else (res_reason_code res) ''ORDER_NOT_FILLED'')])
    \<and> committed c' = committed c"
proof -
  let ?c1 = "ensure_risk_state_today td False c"
  obtain p c2 where cp: "create_position tk sid q False ?c1 = (p, c2)"
    by (cases "create_position tk sid q False ?c1")
  obtain oid c3 where
    io: "insert_order p sid tk ''BUY'' q ''MARKET'' ''SENT'' None False c2 = (Inr oid, c3)"
    by (simp add: insert_order_def order_check_def Let_def)
  obtain be c4 where ie: "insert_position_event p ''BLOCK'' ''BLOCKED''
       (or_else (res_reason_code res) ''ORDER_NOT_FILLED'')
       (JObj [(''signal_id'', JInt (int sid)), (''order_id'', JInt (int oid))])
       (Some (''block:'' @ str_nat p @ '':'' @ str_nat oid)) False c3 = (be, c4)"
    by (metis surj_pair)
  have "committed c4 = committed c"
    using committed_create_position [OF cp] committed_insert_order [OF io]
      committed_insert_position_event [OF ie] by simp
  moreover have "entry_body ks so td sid tk q c =
      (Inr None, db_rollback c4, [BLOCKED (or_else (res_reason_code res) ''ORDER_NOT_FILLED'')])"
    using assms cp io ie todays_risk_state_present [of td c]
    by (auto simp: entry_body_def Let_def todays_risk_state_def entry_request_def)
  ultimately show ?thesis by blast
qed

text \<open>
  C1. Whenever \<open>execute_signal\<close> starts with no transaction open and entry is blocked,
  it returns \<open>False\<close>, the connection is exactly as before the call (the file
  unchanged, nothing pending: no position, order, position event or risk row of the
  rolled-back transaction remains), and the log holds the one \<open>BLOCKED\<close> line. Entry is
  blocked when the risk gate, asked with the risk state Tx #2 reads, does not allow
  trading, or when it does and the broker returns a result whose status is not
  \<open>FILLED\<close>.
\<close>

theorem blocked_entry_leaves_no_trace:
  assumes "pending c = None"
  shows "(\<not> allowed (can_trade ks (todays_risk_state td c)) \<longrightarrow>
      execute_signal ks so td c sid tk q =
        (Inr False, c, [BLOCKED (fmt_opt (reason_code (can_trade ks (todays_risk_state td c))))]))
    \<and> (allowed (can_trade ks (todays_risk_state td c))
        \<and> so (entry_request sid tk q) = Inr res \<and> res_status res \<noteq> ''FILLED'' \<longrightarrow>
      execute_signal ks so td c sid tk q =
        (Inr False, c, [BLOCKED (or_else (res_reason_code res) ''ORDER_NOT_FILLED'')]))"
proof -
  let ?c1 = "c\<lparr>pending := Some (committed c)\<rparr>"
  have v: "view ?c1 = view c"
    using assms by (simp add: view_idle)
  have b: "db_begin c = Inr ?c1"
    using assms by (rule db_begin_idle)
  have rs: "todays_risk_state td ?c1 = todays_risk_state td c"
    using v by (rule todays_risk_state_view)
  show ?thesis
  proof (intro conjI impI)
    assume "\<not> allowed (can_trade ks (todays_risk_state td c))"
    then have "\<not> allowed (can_trade ks (todays_risk_state td ?c1))"
      by (simp add: rs)
    from entry_body_blocked_by_risk [OF this, of so sid tk q]
    show "execute_signal ks so td c sid tk q =
        (Inr False, c, [BLOCKED (fmt_opt (reason_code (can_trade ks (todays_risk_state td c))))])"
      using assms
      by (simp add: execute_signal_def execute_entry_def transaction_def b rs rollback_restores)
  next
    assume a: "allowed (can_trade ks (todays_risk_state td c))
        \<and> so (entry_request sid tk q) = Inr res \<and> res_status res \<noteq> ''FILLED''"
    then have "allowed (can_trade ks (todays_risk_state td ?c1))"
      by (simp add: rs)
    from entry_body_blocked_by_broker [OF this, of so sid tk q res] a
    obtain c' where e: "entry_body ks so td sid tk q ?c1 =
      (Inr None, db_rollback c', [BLOCKED (or_else (res_reason_code res) ''ORDER_NOT_FILLED'')])"
      and c': "committed c' = committed ?c1"
      by blast
    from c' assms have "db_rollback c' = c"
      by (simp add: rollback_restores)
    then show "execute_signal ks so td c sid tk q =
        (Inr False, c, [BLOCKED (or_else (res_reason_code res) ''ORDER_NOT_FILLED'')])"
      by (simp add: execute_signal_def execute_entry_def transaction_def b e)
  qed
qed

section \<open>Concrete runs\<close>

lemma ingested_db_reached:
  "ingest_and_create_signal stub_sha256 stub_float_of_str ''2026-11-03T00:00:00+00:00''
       (init fresh_db)
     = (Inr (Some \<lparr>sb_signal_id = 1, sb_ticker = ''005930''\<rparr>), ingested_db, [])"
  by code_simp

lemma entered_db_reached:
  "execute_entry KillSwitch_init PaperBroker_send_order ''2026-11-03'' ingested_db
       1 ''005930'' 1
     = (Inr (Some 1), entered_db, [ORDER_FILLED ''005930'' 83500 1 1 (Some 1)])"
  by code_simp

lemma settled_db_reached:
  "execute_signal KillSwitch_init PaperBroker_send_order ''2026-11-03'' ingested_db
       1 ''005930'' 1
     = (Inr True, settled_db,
        [ORDER_FILLED ''005930'' 83500 1 1 (Some 1), POSITION_CLOSED 1 ''TIME_EXIT''])"
  by code_simp

section \<open>Entry blocked, and settlement failing\<close>

theorem blocked_entry_leaves_no_trace_witness:
  "execute_signal KillSwitch_init PaperBroker_send_order ''2026-11-03'' risk_disabled_db
       1 ''005930'' 1 = (Inr False, risk_disabled_db, [BLOCKED ''RISK_DISABLED''])
   \<and> execute_signal (KillSwitch_on KillSwitch_init) PaperBroker_send_order ''2026-11-03''
       ingested_db 1 ''005930'' 1 = (Inr False, ingested_db, [BLOCKED ''KILL_SWITCH_ON''])
   \<and> execute_signal KillSwitch_init rejecting_broker ''2026-11-03'' ingested_db
       1 ''005930'' 1 = (Inr False, ingested_db, [BLOCKED ''SIM_REJECT''])"
proof -
  have idle: "pending risk_disabled_db = None" "pending ingested_db = None"
    by (simp_all add: risk_disabled_db_def ingested_db_def)
  have a: "\<not> allowed (can_trade KillSwitch_init
        (todays_risk_state ''2026-11-03'' risk_disabled_db))"
    "fmt_opt (reason_code (can_trade KillSwitch_init
        (todays_risk_state ''2026-11-03'' risk_disabled_db))) = ''RISK_DISABLED''"
    by code_simp+
  have b: "\<not> allowed (can_trade (KillSwitch_on KillSwitch_init)
        (todays_risk_state ''2026-11-03'' ingested_db))"
    "fmt_opt (reason_code (can_trade (KillSwitch_on KillSwitch_init)
        (todays_risk_state ''2026-11-03'' ingested_db))) = ''KILL_SWITCH_ON''"
    by code_simp+
  have c: "allowed (can_trade KillSwitch_init (todays_risk_state ''2026-11-03'' ingested_db))"
    "rejecting_broker (entry_request 1 ''005930'' 1) = Inr \<lparr>res_status = ''REJECTED'',
       res_filled_qty = 0, res_avg_price = 0, res_reason_code = Some ''SIM_REJECT''\<rparr>"
    "or_else (Some ''SIM_REJECT'') ''ORDER_NOT_FILLED'' = ''SIM_REJECT''"
    by code_simp+
  show ?thesis
    using blocked_entry_leaves_no_trace [OF idle(1), of KillSwitch_init "''2026-11-03''"
        PaperBroker_send_order 1 "''005930''" 1]
      blocked_entry_leaves_no_trace [OF idle(2), of "KillSwitch_on KillSwitch_init"
        "''2026-11-03''" PaperBroker_send_order 1 "''005930''" 1]
      blocked_entry_leaves_no_trace [OF idle(2), of KillSwitch_init "''2026-11-03''"
        rejecting_broker 1 "''005930''" 1 "\<lparr>res_status = ''REJECTED'',
       res_filled_qty = 0, res_avg_price = 0, res_reason_code = Some ''SIM_REJECT''\<rparr>"]
      a b c
    by simp
qed

lemma execute_entry_committed:
  assumes "execute_entry ks so td c sid tk q = (Inr (Some pid), c', l)"
  shows "pending c' = None \<and> position_in ''OPEN'' pid c'
         \<and> order_in ''BUY'' ''FILLED'' pid c'
         \<and> (\<exists>oid. event_keyed (''entry:'' @ str_nat pid @ '':'' @ str_nat oid) c')"
proof -
  from assms obtain c1 where "entry_body ks so td sid tk q c1 = (Inr (Some pid), c', l)"
    by (auto simp: execute_entry_def transaction_def split: sum.splits prod.splits)
  then show ?thesis by (rule entry_body_committed)
qed

text \<open>
  C9. Take a run of \<open>execute_signal\<close> in which Tx #2 has committed, leaving the
  connection \<open>c1\<close>, and in which Tx #3 then raises, whatever the call that fails and
  whatever the exception. The connection the run ends with is \<open>c1\<close> itself: what
  Tx #3 had written is rolled back and nothing else is. No transaction is open, so the
  database file holds what is read: the position is \<open>OPEN\<close>, its \<open>BUY\<close> order is
  \<open>FILLED\<close> and the event under the entry key is there. Tx #3 has logged nothing.
\<close>

theorem exit_failure_keeps_entry:
  assumes "execute_entry ks so td c0 sid tk q = (Inr (Some pid), c1, l1)"
    and "execute_signal_under fault ks so td c0 sid tk q = (Inl e, c2, l)"
  shows "c2 = c1 \<and> l = l1 \<and> pending c2 = None \<and> position_in ''OPEN'' pid c2
         \<and> order_in ''BUY'' ''FILLED'' pid c2
         \<and> (\<exists>oid. event_keyed (''entry:'' @ str_nat pid @ '':'' @ str_nat oid) c2)"
proof -
  note entry = execute_entry_committed [OF assms(1)]
  from assms obtain l2 where
    x: "execute_exit_under fault c1 pid sid tk q = (Inl e, c2, l2)" and l: "l = l1 @ l2"
    by (auto simp: execute_signal_under_def split: prod.splits)
  from entry have "pending c1 = None" by simp
  from execute_exit_under_raise [OF this x] have "c2 = c1" "l2 = []" by simp_all
  with entry l show ?thesis by simp
qed

theorem exit_failure_keeps_entry_witness:
  "execute_signal_under (refusing SetPositionClosedCall) KillSwitch_init
       PaperBroker_send_order ''2026-11-03'' ingested_db 1 ''005930'' 1
     = (Inl OperationalError, entered_db, [ORDER_FILLED ''005930'' 83500 1 1 (Some 1)])
   \<and> position_in ''OPEN'' 1 entered_db
   \<and> order_in ''BUY'' ''FILLED'' 1 entered_db
   \<and> rows (orders (committed entered_db)) = [entry_order]
   \<and> rows (position_events (committed entered_db)) = [entry_event]"
proof -
  let ?run = "execute_signal_under (refusing SetPositionClosedCall) KillSwitch_init
       PaperBroker_send_order ''2026-11-03'' ingested_db 1 ''005930'' 1"
  have "fst ?run = Inl OperationalError"
    by code_simp
  then obtain c2 l where x: "?run = (Inl OperationalError, c2, l)"
    by (cases ?run) auto
  note t = exit_failure_keeps_entry [OF entered_db_reached x]
  have o: "rows (orders (committed entered_db)) = [entry_order]"
    "rows (position_events (committed entered_db)) = [entry_event]"
    by (simp_all add: entered_db_def entered_store_def)
  from t have "c2 = entered_db" "l = [ORDER_FILLED ''005930'' 83500 1 1 (Some 1)]"
    "position_in ''OPEN'' 1 c2" "order_in ''BUY'' ''FILLED'' 1 c2"
    by blast+
  with x o show ?thesis
    by simp
qed

section \<open>Signal integrity in Tx #1\<close>

lemma fold_max_ge: "(a::nat) \<le> fold max xs a \<and> (\<forall>x \<in> set xs. x \<le> fold max xs a)"
proof (induction xs arbitrary: a)
  case Nil
  show ?case by simp
next
  case (Cons y ys)
  from Cons [of "max y a"] show ?case by auto
qed

lemma next_rowid_fresh: "r \<in> set (rows t) \<Longrightarrow> key r < next_rowid key t"
  using fold_max_ge [of 0 "map key (rows t)"]
  by (auto simp: next_rowid_def less_Suc_eq_le max_def)

lemma find_appended:
  "\<forall>r \<in> set xs. \<not> P r \<Longrightarrow> P x \<Longrightarrow> find P (xs @ [x]) = Some x"
  by (induction xs) auto

lemma committed_insert_news_if_new:
  "insert_news_if_new item False c = (r, c') \<Longrightarrow> committed c' = committed c"
  by (auto simp: insert_news_if_new_def Let_def split: if_splits)

lemma committed_insert_event_ticker:
  "insert_event_ticker n t cn cf m False c = (r, c') \<Longrightarrow> committed c' = committed c"
  by (auto simp: insert_event_ticker_def Let_def)

lemma committed_insert_signal:
  "insert_signal p False c = (r, c') \<Longrightarrow> committed c' = committed c"
  by (auto simp: insert_signal_def Let_def split: if_splits)

lemma ingest_body_raise:
  assumes "ingest_body sha mapper fos news c = (Inl e, c', l)"
  shows "committed c' = committed c"
proof -
  obtain r1 c1 where a: "insert_news_if_new (news_dict news (build_hash sha news)) False c = (r1, c1)"
    by (metis surj_pair)
  show ?thesis
  proof (cases r1)
    case None
    with assms a show ?thesis by (simp add: ingest_body_def Let_def)
  next
    case (Some news_id)
    note r1 = this
    show ?thesis
    proof (cases "mapper (ni_title news @ '' '' @ ni_body news)")
      case None
      with assms a r1 show ?thesis by (simp add: ingest_body_def Let_def)
    next
      case (Some m)
      obtain n2 c2 where b: "insert_event_ticker news_id (mr_ticker m) (mr_company_name m)
          (mr_confidence m) (mr_method m) False c1 = (n2, c2)"
        by (metis surj_pair)
      have cc: "committed c2 = committed c"
        using committed_insert_news_if_new [OF a] committed_insert_event_ticker [OF b] by simp
      from assms a r1 Some b have "c' = c2 \<or> (\<exists>p r. insert_signal p False c2 = (r, c'))"
        by (auto simp: ingest_body_def Let_def split: option.splits sum.splits prod.splits)
      with cc show ?thesis
        by (auto dest: committed_insert_signal)
    qed
  qed
qed

lemma ingest_with_raise:
  assumes "ingest_with sha mapper fos news c = (Inl e, c', l)"
  shows "c' = c"
proof (cases "pending c")
  case None
  let ?c1 = "c\<lparr>pending := Some (committed c)\<rparr>"
  from assms None obtain c2 where b: "ingest_body sha mapper fos news ?c1 = (Inl e, c2, l)"
    and c': "c' = db_rollback c2"
    by (auto simp: ingest_with_def transaction_def db_begin_idle split: prod.splits sum.splits)
  from ingest_body_raise [OF b] have "committed c2 = committed c" by simp
  with c' None show ?thesis by (simp add: rollback_restores)
next
  case (Some s)
  with assms show ?thesis
    by (simp add: ingest_with_def transaction_def db_begin_def)
qed

lemma get_event_ticker_inserted:
  assumes "insert_event_ticker n t cn cf m ac c = (k, c')"
  shows "get_event_ticker k c' = Some \<lparr>et_id = k, et_news_id = n, et_ticker = t,
           et_company_name = cn, et_map_confidence = cf, et_mapping_method = m\<rparr>"
proof -
  from assms have k: "k = next_rowid et_id (event_tickers (view c))"
    and v: "rows (event_tickers (view c')) = rows (event_tickers (view c)) @
        [\<lparr>et_id = k, et_news_id = n, et_ticker = t,
           et_company_name = cn, et_map_confidence = cf, et_mapping_method = m\<rparr>]"
    by (auto simp: insert_event_ticker_def Let_def append_row_def)
  have "\<forall>r \<in> set (rows (event_tickers (view c))). \<not> et_id r = k"
    using next_rowid_fresh [of _ "event_tickers (view c)" et_id] k by fastforce
  then show ?thesis
    by (simp add: get_event_ticker_def v find_appended)
qed

lemma ingest_low_confidence:
  assumes idle: "pending c = None" and ins: "insertable sha news c"
    and m: "mapper (ni_title news @ '' '' @ ni_body news) = Some m"
    and low: "mr_confidence m < default_min_conf"
  shows "ingest_with sha mapper fos news c = (Inl (IntegrityError ''LOW_CONFIDENCE''), c, [])"
proof -
  let ?c0 = "c\<lparr>pending := Some (committed c)\<rparr>"
  have v0: "view ?c0 = view c"
    using idle by (simp add: view_idle)
  obtain r1 c1 where a: "insert_news_if_new (news_dict news (build_hash sha news)) False ?c0 = (r1, c1)"
    by (metis surj_pair)
  with ins v0 obtain news_id where r1: "r1 = Some news_id"
    by (auto simp: insert_news_if_new_def insertable_def Let_def news_not_null_def news_dict_def)
  obtain n2 c2 where b: "insert_event_ticker news_id (mr_ticker m) (mr_company_name m)
      (mr_confidence m) (mr_method m) False c1 = (n2, c2)"
    by (metis surj_pair)
  have body: "ingest_body sha mapper fos news ?c0 = (Inl (IntegrityError ''LOW_CONFIDENCE''), c2, [])"
    using a r1 m b low get_event_ticker_inserted [OF b]
    by (simp add: ingest_body_def Let_def validate_signal_binding_def)
  have "committed c2 = committed c"
    using ingest_body_raise [OF body] by simp
  then have "db_rollback c2 = c"
    using idle by (simp add: rollback_restores)
  then show ?thesis
    using idle body by (simp add: ingest_with_def transaction_def db_begin_idle)
qed

text \<open>
  C7. \<open>validate_signal_binding\<close> fails with \<open>NEWS_MISMATCH\<close> when the binding's news id
  differs from the input's, whatever the confidence; otherwise with \<open>LOW_CONFIDENCE\<close>
  when the confidence is below the minimum, whose default is 0.92; otherwise it
  succeeds. In Tx #1 every exception leaves the connection exactly as it was before the
  call, so no signal row (and no news or binding row) of the failed run exists; and a
  mapping whose confidence is below the default makes Tx #1 raise \<open>LOW_CONFIDENCE\<close>.
\<close>

theorem integrity_check:
  "(evt_news_id et \<noteq> n \<longrightarrow>
      validate_signal_binding n et mc = Inl (IntegrityError ''NEWS_MISMATCH''))
   \<and> (evt_news_id et = n \<and> evt_map_confidence et < mc \<longrightarrow>
      validate_signal_binding n et mc = Inl (IntegrityError ''LOW_CONFIDENCE''))
   \<and> (evt_news_id et = n \<and> \<not> evt_map_confidence et < mc \<longrightarrow>
      validate_signal_binding n et mc = Inr ())
   \<and> default_min_conf = 0.92
   \<and> (ingest_with sha mapper fos news c = (Inl e, c', l) \<longrightarrow> c' = c)
   \<and> (pending c = None \<and> insertable sha news c
        \<and> mapper (ni_title news @ '' '' @ ni_body news) = Some m
        \<and> mr_confidence m < default_min_conf \<longrightarrow>
      ingest_with sha mapper fos news c = (Inl (IntegrityError ''LOW_CONFIDENCE''), c, []))"
  using ingest_with_raise [of sha mapper fos news c e c' l]
    ingest_low_confidence [of c sha news mapper m fos]
  by (simp add: validate_signal_binding_def default_min_conf_def)

section \<open>The run that fills and settles\<close>

lemma str_nat_1 [simp]: "str_nat (Suc 0) = ''1''"
  by code_simp

lemma str_nat_2 [simp]: "str_nat (Suc (Suc 0)) = ''2''"
  by code_simp

lemma init_fresh_db:
  "init fresh_db = \<lparr>committed = empty_store\<lparr>parameter_registry := \<lparr>rows =
       [\<lparr>pr_id = 1, pr_name = ''score_weights'',
         pr_value_json = Some DEFAULT_SCORE_WEIGHTS_JSON\<rparr>], seq = 1\<rparr>\<rparr>, pending = None\<rparr>"
  by (simp add: init_def db_commit_def empty_store_def empty_table_def next_rowid_def
      append_row_def Let_def)

lemma init_weights:
  "get_score_weights fos (c\<lparr>pending := Some (s\<lparr>parameter_registry := \<lparr>rows =
       [\<lparr>pr_id = 1, pr_name = ''score_weights'',
         pr_value_json = Some DEFAULT_SCORE_WEIGHTS_JSON\<rparr>], seq = 1\<rparr>\<rparr>)\<rparr>)
     = Some DEFAULT_WEIGHTS"
  by (simp add: get_score_weights_def get_parameter_def DEFAULT_SCORE_WEIGHTS_JSON_def
      score_weight_keys_def DEFAULT_WEIGHTS_def)

lemma sample_scores:
  "compute_scores \<lparr>impact = 75, source_reliability = 70, novelty = 90,
       market_reaction = 50, liquidity = 50, risk_penalty = 10\<rparr> (Some DEFAULT_WEIGHTS)
     = Inr (59.5, 59.5)"
  by (simp add: compute_scores_def merge_weights_def getitem_def DEFAULT_WEIGHTS_def
      clamp_def Let_def)

lemma ingest_first:
  assumes tier: "ni_tier news \<in> {1, 2, 3}"
    and m: "mapper (ni_title news @ '' '' @ ni_body news) = Some m"
    and conf: "default_min_conf \<le> mr_confidence m"
  shows "\<exists>c1. ingest_with sha mapper fos news (init fresh_db)
        = (Inr (Some \<lparr>sb_signal_id = 1, sb_ticker = mr_ticker m\<rparr>), c1, [])
      \<and> pending c1 = None
      \<and> positions (committed c1) = empty_table \<and> orders (committed c1) = empty_table
      \<and> position_events (committed c1) = empty_table \<and> risk_state (committed c1) = []
      \<and> rows (signal_scores (committed c1)) = [\<lparr>sg_id = 1, sg_news_id = 1,
           sg_event_ticker_id = 1, sg_ticker = mr_ticker m, sg_raw_score = 59.5,
           sg_total_score = 59.5, sg_components = components, sg_priced_in_flag = ''LOW'',
           sg_decision = ''BUY''\<rparr>]"
proof -
  have ok: "\<not> mr_confidence m < default_min_conf"
    using conf by simp
  show ?thesis
    using tier m ok
    by (simp add: ingest_with_def transaction_def init_fresh_db db_begin_def
      ingest_body_def Let_def view_def dml_def finish_def db_commit_def
      insert_news_if_new_def news_not_null_def news_check_def news_unique_def
      news_dict_def empty_store_def empty_table_def next_rowid_def append_row_def
      insert_event_ticker_def get_event_ticker_def validate_signal_binding_def
      get_score_weights_def get_parameter_def DEFAULT_SCORE_WEIGHTS_JSON_def
      score_weight_keys_def compute_scores_def merge_weights_def getitem_def
      DEFAULT_WEIGHTS_def clamp_def insert_signal_def signal_check_def)
qed

lemma execute_entry_first:
  assumes idle: "pending c = None"
    and empty: "positions (committed c) = empty_table" "orders (committed c) = empty_table"
      "position_events (committed c) = empty_table"
    and risk: "allowed (can_trade ks (todays_risk_state td c))"
    and fill: "so (entry_request sid tk q) = Inr res" "res_status res = ''FILLED''"
  shows "\<exists>c'. execute_entry ks so td c sid tk q =
      (Inr (Some 1), c', [ORDER_FILLED tk (res_avg_price res) sid 1 (Some 1)])
    \<and> pending c' = None
    \<and> positions (committed c') = \<lparr>rows = [\<lparr>ps_position_id = 1, ps_ticker = tk,
          ps_signal_id = sid, ps_status = ''OPEN'', ps_qty = q,
          ps_avg_entry_price = Some (res_avg_price res),
          ps_opened_value = Some (res_avg_price res * q), ps_leverage = 1,
          ps_exit_reason_code = None\<rparr>], seq = 1\<rparr>
    \<and> orders (committed c') = \<lparr>rows = [\<lparr>od_id = 1, od_position_id = 1, od_signal_id = sid,
          od_ticker = tk, od_side = ''BUY'', od_qty = q, od_order_type = ''MARKET'',
          od_price = Some (res_avg_price res), od_status = ''FILLED''\<rparr>], seq = 1\<rparr>
    \<and> position_events (committed c') = \<lparr>rows = [\<lparr>pe_id = 1, pe_position_id = 1,
          pe_event_type = ''ENTRY'', pe_action = ''EXECUTED'', pe_reason_code = ''ENTRY_FILLED'',
          pe_detail_json = JObj [(''signal_id'', JInt (int sid)), (''order_id'', JInt 1),
             (''filled_qty'', JFloat (res_filled_qty res)),
             (''avg_price'', JFloat (res_avg_price res))],
          pe_idempotency_key = Some ''entry:1:1''\<rparr>], seq = 1\<rparr>"
proof -
  let ?c0 = "c\<lparr>pending := Some (committed c)\<rparr>"
  let ?c1 = "ensure_risk_state_today td False ?c0"
  have b: "db_begin c = Inr ?c0"
    using idle by (rule db_begin_idle)
  have rs: "todays_risk_state td ?c0 = todays_risk_state td c"
    using idle by (intro todays_risk_state_view) (simp add: view_idle)
  have v1: "positions (view ?c1) = empty_table" "orders (view ?c1) = empty_table"
      "position_events (view ?c1) = empty_table"
    using empty by (simp_all add: view_ensure_risk_state_today)
  from todays_risk_state_present [of td ?c0] obtain d where
    d: "get_risk_state td ?c1 = Some d" "d \<noteq> []"
    by (auto simp: todays_risk_state_def)
  have al: "allowed (can_trade ks (Some d))"
    using risk rs d by (simp add: todays_risk_state_def)
  show ?thesis
    using d al fill v1
    apply (simp add: execute_entry_def transaction_def b entry_body_def Let_def
        entry_request_def)
    apply (simp add: create_position_def insert_order_def order_check_def Let_def
        update_order_filled_def set_position_open_def insert_position_event_def
        event_check_def key_unique_def next_rowid_def append_row_def update_rows_def
        rowcount_def empty_table_def)
    done
qed

lemma execute_exit_first:
  assumes idle: "pending c = None"
    and pos: "positions (committed c) = \<lparr>rows = [p], seq = 1\<rparr>"
      "ps_position_id p = 1" "ps_status p = ''OPEN''"
    and ord: "orders (committed c) = \<lparr>rows = [o1], seq = 1\<rparr>" "od_id o1 = 1"
    and ev: "position_events (committed c) = \<lparr>rows = [e1], seq = 1\<rparr>" "pe_id e1 = 1"
      "pe_idempotency_key e1 = Some ''entry:1:1''"
  shows "\<exists>c'. execute_exit c 1 sid tk q = (Inr True, c', [POSITION_CLOSED 1 ''TIME_EXIT''])
    \<and> pending c' = None
    \<and> positions (committed c') = \<lparr>rows = [p\<lparr>ps_status := ''CLOSED'',
          ps_exit_reason_code := Some ''TIME_EXIT''\<rparr>], seq = 1\<rparr>
    \<and> orders (committed c') = \<lparr>rows = [o1, \<lparr>od_id = 2, od_position_id = 1,
          od_signal_id = sid, od_ticker = tk, od_side = ''SELL'', od_qty = q,
          od_order_type = ''MARKET'', od_price = Some 83600, od_status = ''FILLED''\<rparr>],
          seq = 2\<rparr>
    \<and> position_events (committed c') = \<lparr>rows = [e1, \<lparr>pe_id = 2, pe_position_id = 1,
          pe_event_type = ''FULL_EXIT'', pe_action = ''EXECUTED'', pe_reason_code = ''TIME_EXIT'',
          pe_detail_json = JObj [(''signal_id'', JInt (int sid)), (''exit_order_id'', JInt 2),
             (''exit_price'', JFloat 83600)],
          pe_idempotency_key = Some ''exit:1:2''\<rparr>], seq = 2\<rparr>"
proof -
  have b: "db_begin c = Inr (c\<lparr>pending := Some (committed c)\<rparr>)"
    using idle by (rule db_begin_idle)
  show ?thesis
    using pos ord ev
    apply (simp add: execute_exit_def transaction_def b exit_body_def Let_def)
    apply (simp add: insert_order_def order_check_def Let_def
        update_order_filled_def set_position_closed_def insert_position_event_def
        event_check_def key_unique_def next_rowid_def append_row_def update_rows_def
        rowcount_def)
    done
qed

lemma new_day_allowed:
  assumes "\<not> enabled ks" and "risk_state (view c) = []"
  shows "allowed (can_trade ks (todays_risk_state td c))"
  using assms
  by (simp add: todays_risk_state_def get_risk_state_def ensure_risk_state_today_def
      risk_row_dict_def can_trade_def dict_get_def)

text \<open>
  C2. From a new database after \<open>init\<close>, for a news item whose tier is valid, a mapper
  that finds a mapping with confidence at least 0.92, the kill switch off and a broker
  that fills the entry order: Tx #1 returns signal id 1; Tx #2 commits with the position
  \<open>OPEN\<close>; \<open>execute_signal\<close> returns \<open>True\<close> and leaves exactly one position, \<open>CLOSED\<close>
  with exit reason \<open>TIME_EXIT\<close>, its average entry price the broker's average price and
  its opened value that price times the quantity; exactly two orders, a \<open>BUY\<close> and a
  \<open>SELL\<close>, both \<open>FILLED\<close>; and two position events, the entry and the full exit.
\<close>

theorem happy_path:
  assumes tier: "ni_tier news \<in> {1, 2, 3}"
    and m: "mapper (ni_title news @ '' '' @ ni_body news) = Some m"
    and conf: "default_min_conf \<le> mr_confidence m"
    and ks: "\<not> enabled ks"
    and fill: "so (entry_request 1 (mr_ticker m) q) = Inr res" "res_status res = ''FILLED''"
  shows "\<exists>c1 c2 c3 l2 l3.
      ingest_with sha mapper fos news (init fresh_db)
        = (Inr (Some \<lparr>sb_signal_id = 1, sb_ticker = mr_ticker m\<rparr>), c1, [])
    \<and> execute_entry ks so td c1 1 (mr_ticker m) q = (Inr (Some 1), c2, l2)
    \<and> map ps_status (rows (positions (committed c2))) = [''OPEN'']
    \<and> execute_signal ks so td c1 1 (mr_ticker m) q = (Inr True, c3, l3)
    \<and> rows (positions (committed c3)) = [\<lparr>ps_position_id = 1, ps_ticker = mr_ticker m,
          ps_signal_id = 1, ps_status = ''CLOSED'', ps_qty = q,
          ps_avg_entry_price = Some (res_avg_price res),
          ps_opened_value = Some (res_avg_price res * q), ps_leverage = 1,
          ps_exit_reason_code = Some ''TIME_EXIT''\<rparr>]
    \<and> map (\<lambda>r. (od_side r, od_status r, od_price r)) (rows (orders (committed c3)))
        = [(''BUY'', ''FILLED'', Some (res_avg_price res)), (''SELL'', ''FILLED'', Some 83600)]
    \<and> map (\<lambda>r. (pe_event_type r, pe_idempotency_key r))
          (rows (position_events (committed c3)))
        = [(''ENTRY'', Some ''entry:1:1''), (''FULL_EXIT'', Some ''exit:1:2'')]"
proof -
  from ingest_first [where mapper = mapper and news = news and m = m and sha = sha
      and fos = fos, OF tier m conf] obtain c1 where
    p1: "ingest_with sha mapper fos news (init fresh_db)
        = (Inr (Some \<lparr>sb_signal_id = 1, sb_ticker = mr_ticker m\<rparr>), c1, [])"
    and i1: "pending c1 = None"
    and e1: "positions (committed c1) = empty_table" "orders (committed c1) = empty_table"
      "position_events (committed c1) = empty_table"
    and r1: "risk_state (committed c1) = []"
    by blast
  have al: "allowed (can_trade ks (todays_risk_state td c1))"
    using ks r1 i1 by (intro new_day_allowed) (simp_all add: view_idle)
  from execute_entry_first [where so = so, OF i1 e1 al fill] obtain c2 where
    p2: "execute_entry ks so td c1 1 (mr_ticker m) q =
      (Inr (Some 1), c2, [ORDER_FILLED (mr_ticker m) (res_avg_price res) 1 1 (Some 1)])"
    and i2: "pending c2 = None"
    and pos2: "positions (committed c2) = \<lparr>rows = [\<lparr>ps_position_id = 1,
          ps_ticker = mr_ticker m, ps_signal_id = 1, ps_status = ''OPEN'', ps_qty = q,
          ps_avg_entry_price = Some (res_avg_price res),
          ps_opened_value = Some (res_avg_price res * q), ps_leverage = 1,
          ps_exit_reason_code = None\<rparr>], seq = 1\<rparr>"
    and ord2: "orders (committed c2) = \<lparr>rows = [\<lparr>od_id = 1, od_position_id = 1,
          od_signal_id = 1, od_ticker = mr_ticker m, od_side = ''BUY'', od_qty = q,
          od_order_type = ''MARKET'', od_price = Some (res_avg_price res),
          od_status = ''FILLED''\<rparr>], seq = 1\<rparr>"
    and ev2: "position_events (committed c2) = \<lparr>rows = [\<lparr>pe_id = 1, pe_position_id = 1,
          pe_event_type = ''ENTRY'', pe_action = ''EXECUTED'', pe_reason_code = ''ENTRY_FILLED'',
          pe_detail_json = JObj [(''signal_id'', JInt (int 1)), (''order_id'', JInt 1),
             (''filled_qty'', JFloat (res_filled_qty res)),
             (''avg_price'', JFloat (res_avg_price res))],
          pe_idempotency_key = Some ''entry:1:1''\<rparr>], seq = 1\<rparr>"
    by blast
  from execute_exit_first [OF i2 pos2 _ _ ord2 _ ev2, of 1 "mr_ticker m" q] obtain c3 where
    p3: "execute_exit c2 1 1 (mr_ticker m) q = (Inr True, c3, [POSITION_CLOSED 1 ''TIME_EXIT''])"
    and pos3: "positions (committed c3) = \<lparr>rows = [\<lparr>ps_position_id = 1,
          ps_ticker = mr_ticker m, ps_signal_id = 1, ps_status = ''OPEN'', ps_qty = q,
          ps_avg_entry_price = Some (res_avg_price res),
          ps_opened_value = Some (res_avg_price res * q), ps_leverage = 1,
          ps_exit_reason_code = None\<rparr>\<lparr>ps_status := ''CLOSED'',
          ps_exit_reason_code := Some ''TIME_EXIT''\<rparr>], seq = 1\<rparr>"
    and ord3: "orders (committed c3) = \<lparr>rows = [\<lparr>od_id = 1, od_position_id = 1,
          od_signal_id = 1, od_ticker = mr_ticker m, od_side = ''BUY'', od_qty = q,
          od_order_type = ''MARKET'', od_price = Some (res_avg_price res),
          od_status = ''FILLED''\<rparr>, \<lparr>od_id = 2, od_position_id = 1,
          od_signal_id = 1, od_ticker = mr_ticker m, od_side = ''SELL'', od_qty = q,
          od_order_type = ''MARKET'', od_price = Some 83600, od_status = ''FILLED''\<rparr>],
          seq = 2\<rparr>"
    and ev3: "position_events (committed c3) = \<lparr>rows = [\<lparr>pe_id = 1, pe_position_id = 1,
          pe_event_type = ''ENTRY'', pe_action = ''EXECUTED'', pe_reason_code = ''ENTRY_FILLED'',
          pe_detail_json = JObj [(''signal_id'', JInt (int 1)), (''order_id'', JInt 1),
             (''filled_qty'', JFloat (res_filled_qty res)),
             (''avg_price'', JFloat (res_avg_price res))],
          pe_idempotency_key = Some ''entry:1:1''\<rparr>, \<lparr>pe_id = 2, pe_position_id = 1,
          pe_event_type = ''FULL_EXIT'', pe_action = ''EXECUTED'', pe_reason_code = ''TIME_EXIT'',
          pe_detail_json = JObj [(''signal_id'', JInt (int 1)), (''exit_order_id'', JInt 2),
             (''exit_price'', JFloat 83600)],
          pe_idempotency_key = Some ''exit:1:2''\<rparr>], seq = 2\<rparr>"
    by auto
  have p4: "execute_signal ks so td c1 1 (mr_ticker m) q = (Inr True, c3,
      [ORDER_FILLED (mr_ticker m) (res_avg_price res) 1 1 (Some 1),
       POSITION_CLOSED 1 ''TIME_EXIT''])"
    using p2 p3 by (simp add: execute_signal_def)
  show ?thesis
    using p1 p2 p4 pos2 pos3 ord3 ev3 by simp
qed

section \<open>Witnesses of the settled run and of the integrity check\<close>

lemma sample_text_mapped:
  "map_ticker (sample_title @ '' '' @ sample_body) = Some sample_mapping"
  by code_simp

lemma sample_news_mapped:
  "map_ticker (ni_title (sample_news now) @ '' '' @ ni_body (sample_news now))
     = Some sample_mapping"
  using sample_text_mapped by (simp add: sample_news_def)

theorem happy_path_witness:
  "ingest_and_create_signal stub_sha256 stub_float_of_str ''2026-11-03T00:00:00+00:00''
       (init fresh_db)
     = (Inr (Some \<lparr>sb_signal_id = 1, sb_ticker = ''005930''\<rparr>), ingested_db, [])
   \<and> execute_entry KillSwitch_init PaperBroker_send_order ''2026-11-03'' ingested_db
       1 ''005930'' 1
     = (Inr (Some 1), entered_db, [ORDER_FILLED ''005930'' 83500 1 1 (Some 1)])
   \<and> map ps_status (rows (positions (committed entered_db))) = [''OPEN'']
   \<and> execute_signal KillSwitch_init PaperBroker_send_order ''2026-11-03'' ingested_db
       1 ''005930'' 1
     = (Inr True, settled_db,
        [ORDER_FILLED ''005930'' 83500 1 1 (Some 1), POSITION_CLOSED 1 ''TIME_EXIT''])
   \<and> rows (positions (committed settled_db)) = [\<lparr>ps_position_id = 1, ps_ticker = ''005930'',
          ps_signal_id = 1, ps_status = ''CLOSED'', ps_qty = 1,
          ps_avg_entry_price = Some 83500, ps_opened_value = Some 83500, ps_leverage = 1,
          ps_exit_reason_code = Some ''TIME_EXIT''\<rparr>]
   \<and> map (\<lambda>r. (od_side r, od_status r, od_price r)) (rows (orders (committed settled_db)))
        = [(''BUY'', ''FILLED'', Some 83500), (''SELL'', ''FILLED'', Some 83600)]
   \<and> length (rows (position_events (committed settled_db))) = 2"
proof -
  let ?now = "''2026-11-03T00:00:00+00:00''"
  let ?res = "\<lparr>res_status = ''FILLED'', res_filled_qty = 1, res_avg_price = 83500,
     res_reason_code = None\<rparr>"
  have tier: "ni_tier (sample_news ?now) \<in> {1, 2, 3}"
    by (simp add: sample_news_def)
  have conf: "default_min_conf \<le> mr_confidence sample_mapping"
    by (simp add: default_min_conf_def sample_mapping_def)
  have ks: "\<not> enabled KillSwitch_init"
    by (simp add: KillSwitch_init_def)
  have fill: "PaperBroker_send_order (entry_request 1 (mr_ticker sample_mapping) 1) = Inr ?res"
    "res_status ?res = ''FILLED''"
    by (simp_all add: PaperBroker_send_order_def entry_request_def)
  have tk: "mr_ticker sample_mapping = ''005930''"
    by (simp add: sample_mapping_def)
  note h = happy_path [where mapper = map_ticker and news = "sample_news ?now"
      and m = sample_mapping and ks = KillSwitch_init and so = PaperBroker_send_order
      and q = 1 and res = ?res and sha = stub_sha256 and fos = stub_float_of_str
      and td = "''2026-11-03''", OF tier sample_news_mapped conf ks fill]
  from h obtain c1 c2 c3 l2 l3 where
    p1: "ingest_with stub_sha256 map_ticker stub_float_of_str (sample_news ?now) (init fresh_db)
        = (Inr (Some \<lparr>sb_signal_id = 1, sb_ticker = mr_ticker sample_mapping\<rparr>), c1, [])"
    and p2: "execute_entry KillSwitch_init PaperBroker_send_order ''2026-11-03'' c1 1
        (mr_ticker sample_mapping) 1 = (Inr (Some 1), c2, l2)"
    and s2: "map ps_status (rows (positions (committed c2))) = [''OPEN'']"
    and p3: "execute_signal KillSwitch_init PaperBroker_send_order ''2026-11-03'' c1 1
        (mr_ticker sample_mapping) 1 = (Inr True, c3, l3)"
    and pos: "rows (positions (committed c3)) = [\<lparr>ps_position_id = 1,
          ps_ticker = mr_ticker sample_mapping,
          ps_signal_id = 1, ps_status = ''CLOSED'', ps_qty = 1,
          ps_avg_entry_price = Some (res_avg_price ?res),
          ps_opened_value = Some (res_avg_price ?res * 1), ps_leverage = 1,
          ps_exit_reason_code = Some ''TIME_EXIT''\<rparr>]"
    and ord: "map (\<lambda>r. (od_side r, od_status r, od_price r)) (rows (orders (committed c3)))
        = [(''BUY'', ''FILLED'', Some (res_avg_price ?res)), (''SELL'', ''FILLED'', Some 83600)]"
    and ev: "map (\<lambda>r. (pe_event_type r, pe_idempotency_key r))
          (rows (position_events (committed c3)))
        = [(''ENTRY'', Some ''entry:1:1''), (''FULL_EXIT'', Some ''exit:1:2'')]"
    by (elim exE conjE) (rule that, assumption+)
  have c1: "c1 = ingested_db"
    using p1 ingested_db_reached by (simp add: ingest_and_create_signal_def)
  have c2: "c2 = entered_db"
    using p2 entered_db_reached by (simp add: c1 tk)
  have c3: "c3 = settled_db"
    using p3 settled_db_reached by (simp add: c1 tk)
  from arg_cong [OF ev, of length]
  have n: "length (rows (position_events (committed settled_db))) = 2"
    by (simp add: c3)
  have a: "map ps_status (rows (positions (committed entered_db))) = [''OPEN'']"
    using s2 by (simp add: c2)
  have b: "rows (positions (committed settled_db)) = [\<lparr>ps_position_id = 1,
          ps_ticker = ''005930'', ps_signal_id = 1, ps_status = ''CLOSED'', ps_qty = 1,
          ps_avg_entry_price = Some 83500, ps_opened_value = Some 83500, ps_leverage = 1,
          ps_exit_reason_code = Some ''TIME_EXIT''\<rparr>]"
    using pos by (simp add: c3 tk)
  have c: "map (\<lambda>r. (od_side r, od_status r, od_price r))
        (rows (orders (committed settled_db)))
        = [(''BUY'', ''FILLED'', Some 83500), (''SELL'', ''FILLED'', Some 83600)]"
    using ord by (simp add: c3)
  show ?thesis
    by (intro conjI ingested_db_reached entered_db_reached settled_db_reached a b c n)
qed

theorem integrity_check_witness:
  "validate_signal_binding 1 \<lparr>evt_id = 1, evt_news_id = 2, evt_map_confidence = 0.20\<rparr>
       default_min_conf = Inl (IntegrityError ''NEWS_MISMATCH'')
   \<and> validate_signal_binding 1 \<lparr>evt_id = 1, evt_news_id = 1, evt_map_confidence = 0.20\<rparr>
       default_min_conf = Inl (IntegrityError ''LOW_CONFIDENCE'')
   \<and> validate_signal_binding 1 \<lparr>evt_id = 1, evt_news_id = 1, evt_map_confidence = 0.92\<rparr>
       default_min_conf = Inr ()
   \<and> ingest_with stub_sha256 low_confidence_mapper stub_float_of_str
       (sample_news ''2026-11-03T00:00:00+00:00'') (init fresh_db)
     = (Inl (IntegrityError ''LOW_CONFIDENCE''), init fresh_db, [])"
proof -
  let ?news = "sample_news ''2026-11-03T00:00:00+00:00''"
  let ?m = "\<lparr>mr_ticker = ''005930'',
     mr_company_name = ''AMBIGUOUS'', mr_confidence = 0.20, mr_method = ''alias_dict''\<rparr>"
  have idle: "pending (init fresh_db) = None"
    by (simp add: init_def)
  have ins: "insertable stub_sha256 ?news (init fresh_db)"
    by (simp add: insertable_def news_check_def news_unique_def news_dict_def sample_news_def
        view_init_fresh empty_store_def empty_table_def)
  have m: "low_confidence_mapper (ni_title ?news @ '' '' @ ni_body ?news) = Some ?m"
    by (simp add: low_confidence_mapper_def)
  have low: "mr_confidence ?m < default_min_conf"
    by (simp add: default_min_conf_def)
  have d: "(0.20::real) < default_min_conf" "\<not> (0.92::real) < default_min_conf"
    by (simp_all add: default_min_conf_def)
  show ?thesis
    using integrity_check [where et = "\<lparr>evt_id = 1, evt_news_id = 2, evt_map_confidence = 0.20\<rparr>"
        and n = 1 and mc = default_min_conf]
      integrity_check [where et = "\<lparr>evt_id = 1, evt_news_id = 1, evt_map_confidence = 0.20\<rparr>"
        and n = 1 and mc = default_min_conf]
      integrity_check [where et = "\<lparr>evt_id = 1, evt_news_id = 1, evt_map_confidence = 0.92\<rparr>"
        and n = 1 and mc = default_min_conf and c = "init fresh_db" and sha = stub_sha256
        and news = ?news and mapper = low_confidence_mapper and m = ?m
        and fos = stub_float_of_str]
      idle ins m low d
    by simp
qed

section \<open>Idempotent events and duplicate news\<close>

lemma insert_position_event_first:
  assumes "event_check et a" and "\<not> event_keyed k c"
  shows "\<exists>n c1. insert_position_event p et a rc d (Some k) ac c = (Some n, c1)
     \<and> rows (position_events (view c1)) = rows (position_events (view c)) @
         [\<lparr>pe_id = n, pe_position_id = p, pe_event_type = et, pe_action = a,
           pe_reason_code = rc, pe_detail_json = d, pe_idempotency_key = Some k\<rparr>]
     \<and> event_keyed k c1"
  using assms
  by (simp add: insert_position_event_def key_unique_def event_keyed_def Let_def
      append_row_def)

lemma insert_position_event_again:
  assumes "event_keyed k c"
  shows "insert_position_event p et a rc d (Some k) ac c = (None, dml (\<lambda>s. s) c)"
  using assms
  by (simp add: insert_position_event_def key_unique_def event_keyed_def)

lemma list_ex_updated:
  assumes "list_ex hit xs" and "\<And>r. hit r \<Longrightarrow> Q (f r)"
  shows "list_ex Q (map (\<lambda>r. if hit r then f r else r) xs)"
  using assms by (induction xs) auto

lemma execute_exit_key_taken:
  assumes idle: "pending c = None" and pos: "position_in ''OPEN'' pid c"
    and key: "event_keyed (''exit:'' @ str_nat pid @ '':''
                @ str_nat (next_rowid od_id (orders (view c)))) c"
  shows "\<exists>c'. execute_exit c pid sid tk q = (Inr True, c', [POSITION_CLOSED pid ''TIME_EXIT''])
     \<and> position_events (committed c') = position_events (committed c)
     \<and> position_in ''CLOSED'' pid c'"
proof -
  let ?c0 = "c\<lparr>pending := Some (committed c)\<rparr>"
  let ?oid = "next_rowid od_id (orders (view c))"
  have b: "db_begin c = Inr ?c0"
    using idle by (rule db_begin_idle)
  have v0: "view ?c0 = view c"
    using idle by (simp add: view_idle)
  obtain c1 where io: "insert_order pid sid tk ''SELL'' q ''MARKET'' ''SENT'' None False ?c0
      = (Inr ?oid, c1)"
    using idle by (simp add: insert_order_def order_check_def Let_def view_idle)
  let ?c2 = "update_order_filled ?oid 83600 False c1"
  have v2: "positions (view ?c2) = positions (view c)"
    "position_events (view ?c2) = position_events (view c)"
    using view_insert_order [OF io] idle
    by (simp_all add: view_update_order_filled view_idle)
  have "position_in ''OPEN'' pid ?c2"
    using pos by (simp add: position_in_def v2)
  then obtain c3 where sc: "set_position_closed pid ''TIME_EXIT'' False ?c2 = (Inr (), c3)"
    using closed_accepted [of pid ?c2 "''TIME_EXIT''" False]
    by (cases "set_position_closed pid ''TIME_EXIT'' False ?c2") auto
  have pv: "rows (positions (view c3)) =
      map (\<lambda>r. if ps_position_id r = pid \<and> ps_status r = ''OPEN''
               then r\<lparr>ps_status := ''CLOSED'', ps_exit_reason_code := Some ''TIME_EXIT''\<rparr>
               else r) (rows (positions (view c)))"
    using view_set_position_closed [OF sc] by (simp add: v2 update_rows_def)
  have closed: "position_in ''CLOSED'' pid c3"
    unfolding position_in_def pv
    using pos [unfolded position_in_def] by (rule list_ex_updated) simp
  have v3: "position_events (view c3) = position_events (view c)"
    using view_set_position_closed [OF sc] by (simp add: v2)
  have "event_keyed (''exit:'' @ str_nat pid @ '':'' @ str_nat ?oid) c3"
    using key by (simp add: event_keyed_def v3)
  note ie = insert_position_event_again [OF this, of pid "''FULL_EXIT''" "''EXECUTED''"
      "''TIME_EXIT''" _ False]
  have "exit_body pid sid tk q ?c0 =
      (Inr True, db_commit (dml (\<lambda>s. s) c3), [POSITION_CLOSED pid ''TIME_EXIT''])"
    using ie by (simp add: exit_body_def Let_def io sc)
  then have "execute_exit c pid sid tk q =
      (Inr True, db_commit (dml (\<lambda>s. s) c3), [POSITION_CLOSED pid ''TIME_EXIT''])"
    by (simp add: execute_exit_def transaction_def b)
  moreover have "position_events (committed (db_commit (dml (\<lambda>s. s) c3)))
      = position_events (committed c)"
    using idle by (simp add: v3 view_idle)
  moreover have "position_in ''CLOSED'' pid (db_commit (dml (\<lambda>s. s) c3))"
    using closed by (simp add: position_in_def)
  ultimately show ?thesis by blast
qed

text \<open>
  C4. When the event's type and action pass the table's \<open>check\<close> and no stored event
  has the key yet, \<open>insert_position_event\<close> returns a row id and appends exactly that
  one row, and any later insert with the same key returns \<open>None\<close> and changes neither
  the view nor the file. The pipeline does not treat the rejection as an error: when the
  key Tx #3 will use is already stored, Tx #3 on an \<open>OPEN\<close> position still returns
  \<open>True\<close>, closes the position and commits, with the events as they were.
\<close>

theorem idempotent_position_event:
  "(event_check et a \<and> \<not> event_keyed k c \<longrightarrow>
      (\<exists>n c1. insert_position_event p et a rc d (Some k) ac c = (Some n, c1)
         \<and> rows (position_events (view c1)) = rows (position_events (view c)) @
             [\<lparr>pe_id = n, pe_position_id = p, pe_event_type = et, pe_action = a,
               pe_reason_code = rc, pe_detail_json = d, pe_idempotency_key = Some k\<rparr>]
         \<and> fst (insert_position_event p2 et2 a2 rc2 d2 (Some k) ac2 c1) = None
         \<and> view (snd (insert_position_event p2 et2 a2 rc2 d2 (Some k) ac2 c1)) = view c1
         \<and> committed (snd (insert_position_event p2 et2 a2 rc2 d2 (Some k) ac2 c1))
             = committed c1))
   \<and> (pending c = None \<and> position_in ''OPEN'' pid c
        \<and> event_keyed (''exit:'' @ str_nat pid @ '':''
             @ str_nat (next_rowid od_id (orders (view c)))) c \<longrightarrow>
      (\<exists>c'. execute_exit c pid sid tk q
              = (Inr True, c', [POSITION_CLOSED pid ''TIME_EXIT''])
         \<and> position_events (committed c') = position_events (committed c)
         \<and> position_in ''CLOSED'' pid c'))"
proof (intro conjI impI)
  assume "event_check et a \<and> \<not> event_keyed k c"
  then obtain n c1 where f: "insert_position_event p et a rc d (Some k) ac c = (Some n, c1)"
    "rows (position_events (view c1)) = rows (position_events (view c)) @
       [\<lparr>pe_id = n, pe_position_id = p, pe_event_type = et, pe_action = a,
         pe_reason_code = rc, pe_detail_json = d, pe_idempotency_key = Some k\<rparr>]"
    "event_keyed k c1"
    using insert_position_event_first [of et a k c p rc d ac] by blast
  from insert_position_event_again [OF f(3), of p2 et2 a2 rc2 d2 ac2] f(1,2)
  show "\<exists>n c1. insert_position_event p et a rc d (Some k) ac c = (Some n, c1)
         \<and> rows (position_events (view c1)) = rows (position_events (view c)) @
             [\<lparr>pe_id = n, pe_position_id = p, pe_event_type = et, pe_action = a,
               pe_reason_code = rc, pe_detail_json = d, pe_idempotency_key = Some k\<rparr>]
         \<and> fst (insert_position_event p2 et2 a2 rc2 d2 (Some k) ac2 c1) = None
         \<and> view (snd (insert_position_event p2 et2 a2 rc2 d2 (Some k) ac2 c1)) = view c1
         \<and> committed (snd (insert_position_event p2 et2 a2 rc2 d2 (Some k) ac2 c1))
             = committed c1"
    by simp
next
  assume "pending c = None \<and> position_in ''OPEN'' pid c
        \<and> event_keyed (''exit:'' @ str_nat pid @ '':''
             @ str_nat (next_rowid od_id (orders (view c)))) c"
  then show "\<exists>c'. execute_exit c pid sid tk q
              = (Inr True, c', [POSITION_CLOSED pid ''TIME_EXIT''])
         \<and> position_events (committed c') = position_events (committed c)
         \<and> position_in ''CLOSED'' pid c'"
    using execute_exit_key_taken [of c pid sid tk q] by blast
qed

theorem idempotent_position_event_witness:
  "fst (insert_position_event 1 ''ENTRY'' ''EXECUTED'' ''ENTRY_FILLED''
          (JObj [(''ok'', JBool True)]) (Some ''entry:1:1'') True pending_position) = Some 1
   \<and> fst (insert_position_event 1 ''ENTRY'' ''EXECUTED'' ''ENTRY_FILLED_DUP''
          (JObj [(''dup'', JBool True)]) (Some ''entry:1:1'') True
          (snd (insert_position_event 1 ''ENTRY'' ''EXECUTED'' ''ENTRY_FILLED''
             (JObj [(''ok'', JBool True)]) (Some ''entry:1:1'') True pending_position))) = None
   \<and> map pe_reason_code (rows (position_events (view
          (snd (insert_position_event 1 ''ENTRY'' ''EXECUTED'' ''ENTRY_FILLED_DUP''
             (JObj [(''dup'', JBool True)]) (Some ''entry:1:1'') True
             (snd (insert_position_event 1 ''ENTRY'' ''EXECUTED'' ''ENTRY_FILLED''
                (JObj [(''ok'', JBool True)]) (Some ''entry:1:1'') True pending_position)))))))
       = [''ENTRY_FILLED'']
   \<and> (\<exists>c'. execute_exit exit_recorded_db 1 1 ''005930'' 1
              = (Inr True, c', [POSITION_CLOSED 1 ''TIME_EXIT''])
         \<and> position_events (committed c') = position_events (committed exit_recorded_db)
         \<and> position_in ''CLOSED'' 1 c')"
proof -
  let ?first = "insert_position_event 1 ''ENTRY'' ''EXECUTED'' ''ENTRY_FILLED''
          (JObj [(''ok'', JBool True)]) (Some ''entry:1:1'') True pending_position"
  have chk: "event_check ''ENTRY'' ''EXECUTED''"
    by (simp add: event_check_def)
  have new: "\<not> event_keyed ''entry:1:1'' pending_position"
    by (simp add: event_keyed_def pending_position_eval empty_store_def empty_table_def)
  have none: "rows (position_events (view pending_position)) = []"
    by (simp add: pending_position_eval empty_store_def empty_table_def)
  have one: "fst ?first = Some 1"
    by code_simp
  have idle: "pending exit_recorded_db = None"
    by (simp add: exit_recorded_db_def)
  have opened: "position_in ''OPEN'' 1 exit_recorded_db"
    by code_simp
  have taken: "event_keyed (''exit:'' @ str_nat 1 @ '':''
       @ str_nat (next_rowid od_id (orders (view exit_recorded_db)))) exit_recorded_db"
    by code_simp
  note t = idempotent_position_event [where et = "''ENTRY''" and a = "''EXECUTED''"
      and k = "''entry:1:1''" and c = pending_position and p = 1 and rc = "''ENTRY_FILLED''"
      and d = "JObj [(''ok'', JBool True)]" and ac = True
      and ?p2.0 = 1 and ?et2.0 = "''ENTRY''" and ?a2.0 = "''EXECUTED''"
      and ?rc2.0 = "''ENTRY_FILLED_DUP''" and ?d2.0 = "JObj [(''dup'', JBool True)]"
      and ?ac2.0 = True]
  note u = idempotent_position_event [where c = exit_recorded_db and pid = 1 and sid = 1
      and tk = "''005930''" and q = 1]
  from t chk new obtain n c1 where
    f: "?first = (Some n, c1)"
    and r: "rows (position_events (view c1)) = rows (position_events (view pending_position)) @
             [\<lparr>pe_id = n, pe_position_id = 1, pe_event_type = ''ENTRY'',
               pe_action = ''EXECUTED'', pe_reason_code = ''ENTRY_FILLED'',
               pe_detail_json = JObj [(''ok'', JBool True)],
               pe_idempotency_key = Some ''entry:1:1''\<rparr>]"
    and s: "fst (insert_position_event 1 ''ENTRY'' ''EXECUTED'' ''ENTRY_FILLED_DUP''
          (JObj [(''dup'', JBool True)]) (Some ''entry:1:1'') True c1) = None"
    and v: "view (snd (insert_position_event 1 ''ENTRY'' ''EXECUTED'' ''ENTRY_FILLED_DUP''
          (JObj [(''dup'', JBool True)]) (Some ''entry:1:1'') True c1)) = view c1"
    by blast
  from f have c1: "snd ?first = c1" by simp
  have x: "\<exists>c'. execute_exit exit_recorded_db 1 1 ''005930'' 1
              = (Inr True, c', [POSITION_CLOSED 1 ''TIME_EXIT''])
         \<and> position_events (committed c') = position_events (committed exit_recorded_db)
         \<and> position_in ''CLOSED'' 1 c'"
    using u idle opened taken by blast
  show ?thesis
    using one s v r none x c1 by simp
qed

lemma duplicate_news_returns_None:
  "\<not> news_unique item (view c) \<Longrightarrow> insert_news_if_new item ac c = (None, dml (\<lambda>s. s) c)"
  by (simp add: insert_news_if_new_def)

lemma second_ingest_skipped:
  "ingest_and_create_signal stub_sha256 stub_float_of_str ''2026-11-03T00:05:00+00:00''
       ingested_db = (Inr None, ingested_db, [DUP_NEWS_SKIPPED])"
  by code_simp

text \<open>
  C5, where the code departs from it. On a database with no news row, an item whose tier
  is 4 violates only the \<open>check\<close> constraint, yet \<open>insert_news_if_new\<close> returns
  \<open>None\<close>, and Tx #1 on such an item reports \<open>DUP_NEWS_SKIPPED\<close>: \<open>None\<close> does not single out
  a violated uniqueness constraint.
\<close>

theorem check_violation_reported_as_duplicate:
  "rows (news_events (view (init fresh_db))) = []
   \<and> insert_news_if_new bad_tier_item True (init fresh_db)
       = (None, dml (\<lambda>s. s) (init fresh_db))
   \<and> ingest_with stub_sha256 map_ticker stub_float_of_str
       ((sample_news ''2026-11-03T00:00:00+00:00'')\<lparr>ni_tier := 4\<rparr>) (init fresh_db)
       = (Inr None, init fresh_db, [DUP_NEWS_SKIPPED])"
  by code_simp

end
